theory Spec2Isabelle
  imports Complex_Main
begin

section \<open>Median Ratio Normalization: the notebook's numerical cells\<close>

text \<open>
  The development embeds the cells of section 3 of \<^verbatim>\<open>p9855_mrn.ipynb\<close> (steps I to VII
  of MRN normalization). The notebook works on pandas data frames of float64 values.
  A float64 is modelled by the type \<open>fl\<close>: a real number, one of the two infinities, or
  NaN. Arithmetic on \<open>fl\<close> follows IEEE 754 for the special values (division by zero,
  \<open>inf - inf\<close>, \<open>log 0\<close>, NaN propagation); on finite values it is exact real
  arithmetic, so rounding, overflow and the sign of zero are not part of the model.
\<close>

subsection \<open>float64 values and the numpy operations on them\<close>

datatype fl = Fin real | PInf | NInf | NaN

fun fadd :: "fl \<Rightarrow> fl \<Rightarrow> fl" where
  "fadd (Fin a) (Fin b) = Fin (a + b)"
| "fadd NaN _ = NaN"
| "fadd _ NaN = NaN"
| "fadd PInf NInf = NaN"
| "fadd NInf PInf = NaN"
| "fadd PInf _ = PInf"
| "fadd _ PInf = PInf"
| "fadd NInf _ = NInf"
| "fadd _ NInf = NInf"

fun fmul :: "fl \<Rightarrow> fl \<Rightarrow> fl" where
  "fmul (Fin a) (Fin b) = Fin (a * b)"
| "fmul NaN _ = NaN"
| "fmul _ NaN = NaN"
| "fmul PInf (Fin b) = (if b = 0 then NaN else if 0 < b then PInf else NInf)"
| "fmul NInf (Fin b) = (if b = 0 then NaN else if 0 < b then NInf else PInf)"
| "fmul (Fin a) PInf = (if a = 0 then NaN else if 0 < a then PInf else NInf)"
| "fmul (Fin a) NInf = (if a = 0 then NaN else if 0 < a then NInf else PInf)"
| "fmul PInf PInf = PInf"
| "fmul PInf NInf = NInf"
| "fmul NInf PInf = NInf"
| "fmul NInf NInf = PInf"

text \<open>
  True division of numpy and pandas: a zero divisor raises nothing. \<open>0 / 0\<close> is NaN and
  \<open>x / 0\<close> is an infinity with the sign of \<open>x\<close>.
\<close>

fun fdiv :: "fl \<Rightarrow> fl \<Rightarrow> fl" where
  "fdiv (Fin a) (Fin b) =
     (if b = 0 then (if a = 0 then NaN else if 0 < a then PInf else NInf)
      else Fin (a / b))"
| "fdiv NaN _ = NaN"
| "fdiv _ NaN = NaN"
| "fdiv (Fin a) PInf = Fin 0"
| "fdiv (Fin a) NInf = Fin 0"
| "fdiv PInf (Fin b) = (if 0 \<le> b then PInf else NInf)"
| "fdiv NInf (Fin b) = (if 0 \<le> b then NInf else PInf)"
| "fdiv PInf PInf = NaN"
| "fdiv PInf NInf = NaN"
| "fdiv NInf PInf = NaN"
| "fdiv NInf NInf = NaN"

text \<open>\<^verbatim>\<open>np.log\<close> and \<^verbatim>\<open>np.exp\<close>: \<open>log 0 = -inf\<close>, the log of a negative number is NaN.\<close>

fun flog :: "fl \<Rightarrow> fl" where
  "flog (Fin a) = (if 0 < a then Fin (ln a) else if a = 0 then NInf else NaN)"
| "flog PInf = PInf"
| "flog NInf = NaN"
| "flog NaN = NaN"

fun fexp :: "fl \<Rightarrow> fl" where
  "fexp (Fin a) = Fin (exp a)"
| "fexp PInf = PInf"
| "fexp NInf = Fin 0"
| "fexp NaN = NaN"

text \<open>The order of the non-NaN values, used where numpy sorts.\<close>

fun fle :: "fl \<Rightarrow> fl \<Rightarrow> bool" where
  "fle (Fin a) (Fin b) = (a \<le> b)"
| "fle NaN _ = False"
| "fle _ NaN = False"
| "fle NInf _ = True"
| "fle _ PInf = True"
| "fle PInf _ = False"
| "fle _ NInf = False"

fun finsort :: "fl \<Rightarrow> fl list \<Rightarrow> fl list" where
  "finsort x [] = [x]"
| "finsort x (y # ys) = (if fle x y then x # y # ys else y # finsort x ys)"

fun fsort :: "fl list \<Rightarrow> fl list" where
  "fsort [] = []"
| "fsort (x # xs) = finsort x (fsort xs)"

fun fsum :: "fl list \<Rightarrow> fl" where
  "fsum [] = Fin 0"
| "fsum (x # xs) = fadd x (fsum xs)"

text \<open>\<^verbatim>\<open>np.mean\<close> of an array: the sum over the count; the mean of no value is \<open>0 / 0\<close>, NaN.\<close>

definition np_mean :: "fl list \<Rightarrow> fl" where
  "np_mean a = fdiv (fsum a) (Fin (real (length a)))"

text \<open>
  The \<^verbatim>\<open>mean\<close> of a pandas Series or of a data frame column (\<open>skipna=True\<close>, the default):
  NaN entries are left out, infinities are not.
\<close>

definition nanmean :: "fl list \<Rightarrow> fl" where
  "nanmean a = np_mean (filter (\<lambda>x. x \<noteq> NaN) a)"

text \<open>
  \<^verbatim>\<open>np.median\<close> of a one-dimensional array: NaN if the array holds a NaN; otherwise the
  array is ordered, and the mean of the middle element (odd length) or of the two middle
  elements (even length) is returned. For the empty array the slice is empty and its mean
  is NaN (numpy warns "Mean of empty slice" and raises nothing).
\<close>

definition np_median :: "fl list \<Rightarrow> fl" where
  "np_median a =
     (if NaN \<in> set a then NaN
      else let part = fsort a; n = length part; index = n div 2
           in if n mod 2 = 1 then np_mean (take 1 (drop index part))
              else np_mean (take 2 (drop (index - 1) part)))"

subsection \<open>Data frames and label lookup\<close>

text \<open>
  A data frame is its row labels, its column labels and the value at each pair of labels
  (sample, gene and clone identifiers label one row or column each).
  \<^verbatim>\<open>df.loc[k]\<close> raises \<^verbatim>\<open>KeyError\<close> (a subclass of Python's \<^verbatim>\<open>LookupError\<close>)
  when the label is not in the index. No other statement of the notebook's numerical
  cells raises.
\<close>

record ('r, 'c, 'v) dataframe =
  index :: "'r list"
  columns :: "'c list"
  cell :: "'r \<Rightarrow> 'c \<Rightarrow> 'v"

datatype error = KeyError

definition loc :: "('r, 'c, 'v) dataframe \<Rightarrow> 'r \<Rightarrow> error + ('c \<Rightarrow> 'v)" where
  "loc df k = (if k \<in> set (index df) then Inr (cell df k) else Inl KeyError)"

subsection \<open>Cell 18: the clone labels\<close>

text \<open>
  \<open>meta_df\<close> is the column \<^verbatim>\<open>meta_df['Clone_ID']\<close>: the pairs of a sample and its clone,
  one pair per sample (the samples are the index of the metadata frame).
  \<^verbatim>\<open>clones = sorted(list(meta_df.Clone_ID.unique()))\<close>.
\<close>

definition clones :: "('s \<times> 'k::linorder) list \<Rightarrow> 'k list" where
  "clones meta_df = sort (remdups (map snd meta_df))"

subsection \<open>Step I: prenormalization by library size\<close>

text \<open>\<^verbatim>\<open>library_size = EM.sum(axis=1)\<close>\<close>

definition library_size :: "('s, 'g, real) dataframe \<Rightarrow> 's \<Rightarrow> fl" where
  "library_size EM s = Fin (sum_list (map (cell EM s) (columns EM)))"

text \<open>\<^verbatim>\<open>Y = EM.apply(lambda column : column / library_size)\<close>\<close>

definition Y :: "('s, 'g, real) dataframe \<Rightarrow> ('s, 'g, fl) dataframe" where
  "Y EM = \<lparr>index = index EM, columns = columns EM,
           cell = (\<lambda>s g. fdiv (Fin (cell EM s g)) (library_size EM s))\<rparr>"

subsection \<open>Step II: the reference sample\<close>

text \<open>
  \<^verbatim>\<open>Y_clonal = Y.assign(Clone=meta_df['Clone_ID']).groupby('Clone').apply(np.mean)\<close>

  \<^verbatim>\<open>assign\<close> aligns the clone column on the samples of the frame; a sample without a row
  in \<open>meta_df\<close> gets a missing clone, and \<^verbatim>\<open>groupby\<close> drops it. The groups are the
  clones that occur among the samples of the assigned frame, in sorted order; each group's
  row is the mean of every gene column over the group's samples (\<^verbatim>\<open>np.mean\<close> of a data
  frame is the frame's own \<^verbatim>\<open>mean\<close>, which skips NaN).
\<close>

definition members :: "'s list \<Rightarrow> ('s \<times> 'k) list \<Rightarrow> 'k \<Rightarrow> 's list" where
  "members samples meta_df c = filter (\<lambda>s. map_of meta_df s = Some c) samples"

text \<open>
  \<^verbatim>\<open>Y.assign(Clone=...)\<close> sets a column. A frame that has rows keeps them. A frame with no
  row at all takes the index of the assigned column instead: it gets one row per sample
  of \<open>meta_df\<close>, with NaN in every gene column.
\<close>

definition assign_Clone ::
  "('s, 'g, fl) dataframe \<Rightarrow> ('s \<times> 'k) list \<Rightarrow> ('s, 'g, fl) dataframe" where
  "assign_Clone Yf meta_df =
     (if index Yf = []
      then \<lparr>index = map fst meta_df, columns = columns Yf, cell = (\<lambda>s g. NaN)\<rparr>
      else Yf)"

definition Y_clonal ::
  "('s, 'g, fl) dataframe \<Rightarrow> ('s \<times> 'k::linorder) list \<Rightarrow> ('k, 'g, fl) dataframe" where
  "Y_clonal Yf meta_df =
     (let assigned = assign_Clone Yf meta_df
      in \<lparr>index = sort (remdups (List.map_filter (map_of meta_df) (index assigned))),
          columns = columns assigned,
          cell = (\<lambda>c g. nanmean (map (\<lambda>s. cell assigned s g)
                                 (members (index assigned) meta_df c)))\<rparr>)"

text \<open>
  \<^verbatim>\<open>Y_ref = Y_clonal.loc['P1_A03']\<close>. The notebook writes the reference clone's label
  into the cell; here it is the parameter \<open>ref\<close>.
\<close>

definition Y_ref ::
  "('k, 'g, fl) dataframe \<Rightarrow> 'k \<Rightarrow> error + ('g \<Rightarrow> fl)" where
  "Y_ref Yc ref = loc Yc ref"

subsection \<open>Step III: size relative to the reference sample\<close>

text \<open>
  \<^verbatim>\<open>ok_genes = [gene for gene in genes_relevant
              if (numerator[gene] != 0) and (denominator[gene] != 0)]\<close>

  \<^verbatim>\<open>ratios = numerator[ok_genes] / denominator[ok_genes]\<close>

  A NaN or an infinity is different from 0, so such a gene is kept.
\<close>

definition ok_genes :: "'g list \<Rightarrow> ('g \<Rightarrow> fl) \<Rightarrow> ('g \<Rightarrow> fl) \<Rightarrow> 'g list" where
  "ok_genes genes_relevant numerator denominator =
     filter (\<lambda>gene. numerator gene \<noteq> Fin 0 \<and> denominator gene \<noteq> Fin 0) genes_relevant"

definition ratios :: "'g list \<Rightarrow> ('g \<Rightarrow> fl) \<Rightarrow> ('g \<Rightarrow> fl) \<Rightarrow> fl list" where
  "ratios genes_relevant numerator denominator =
     map (\<lambda>gene. fdiv (numerator gene) (denominator gene))
       (ok_genes genes_relevant numerator denominator)"

text \<open>
  The loop \<^verbatim>\<open>for clone in clones\<close>, over the clones still to visit, with the Series \<open>tau\<close>
  built so far. \<^verbatim>\<open>Y_clonal.loc[clone]\<close> raises for a clone none of whose samples is in
  \<open>Y\<close>.
\<close>

fun tau_loop ::
  "'g list \<Rightarrow> ('k, 'g, fl) dataframe \<Rightarrow> ('g \<Rightarrow> fl) \<Rightarrow> 'k list \<Rightarrow> ('k \<rightharpoonup> fl) \<Rightarrow>
   error + ('k \<rightharpoonup> fl)" where
  "tau_loop genes_relevant Yc denominator [] tau = Inr tau"
| "tau_loop genes_relevant Yc denominator (clone # rest) tau =
     (case loc Yc clone of
        Inl e \<Rightarrow> Inl e
      | Inr numerator \<Rightarrow>
          tau_loop genes_relevant Yc denominator rest
            (tau(clone \<mapsto> np_median (ratios genes_relevant numerator denominator))))"

text \<open>
  Cells 45 and 48 in sequence: the reference row, then \<^verbatim>\<open>tau = pd.Series(index = clones)\<close>
  (every entry NaN) and the loop. \<open>genes_relevant\<close> are the columns of \<open>EM\<close>
  (\<^verbatim>\<open>EM = bulks_raw[genes_relevant].loc[bulks_good]\<close>).
\<close>

definition tau ::
  "('s, 'g, real) dataframe \<Rightarrow> ('s \<times> 'k::linorder) list \<Rightarrow> 'k \<Rightarrow> error + ('k \<rightharpoonup> fl)" where
  "tau EM meta_df ref =
     (case Y_ref (Y_clonal (Y EM) meta_df) ref of
        Inl e \<Rightarrow> Inl e
      | Inr denominator \<Rightarrow>
          tau_loop (columns EM) (Y_clonal (Y EM) meta_df) denominator (clones meta_df)
            (\<lambda>c. if c \<in> set (clones meta_df) then Some NaN else None))"

subsection \<open>Steps V and VI: effective library size, relative normalization factor\<close>

text \<open>
  \<^verbatim>\<open>clonalities = pd.Series(meta_df['Clone_ID'], index=library_size.index)\<close>

  \<^verbatim>\<open>scalar_lib_size = clonalities.map(tau)\<close>: a missing clone, or a clone that is not a
  label of \<open>tau\<close>, maps to NaN.

  \<^verbatim>\<open>effective_lib_size = scalar_lib_size * library_size\<close>
\<close>

definition clonalities :: "('s \<times> 'k) list \<Rightarrow> 's \<Rightarrow> 'k option" where
  "clonalities meta_df s = map_of meta_df s"

definition scalar_lib_size :: "('s \<times> 'k) list \<Rightarrow> ('k \<rightharpoonup> fl) \<Rightarrow> 's \<Rightarrow> fl" where
  "scalar_lib_size meta_df tau_s s =
     (case clonalities meta_df s of
        None \<Rightarrow> NaN
      | Some c \<Rightarrow> (case tau_s c of None \<Rightarrow> NaN | Some t \<Rightarrow> t))"

definition effective_lib_size ::
  "('s, 'g, real) dataframe \<Rightarrow> ('s \<times> 'k) list \<Rightarrow> ('k \<rightharpoonup> fl) \<Rightarrow> 's \<Rightarrow> fl" where
  "effective_lib_size EM meta_df tau_s s =
     fmul (scalar_lib_size meta_df tau_s s) (library_size EM s)"

text \<open>
  \<^verbatim>\<open>np.exp(series.apply(np.log).mean())\<close>, the geometric mean of a Series over the
  samples, and \<^verbatim>\<open>geo_mean\<close>, that of \<open>effective_lib_size\<close>.
\<close>

definition geo_mean_of :: "'s list \<Rightarrow> ('s \<Rightarrow> fl) \<Rightarrow> fl" where
  "geo_mean_of samples series = fexp (nanmean (map (\<lambda>s. flog (series s)) samples))"

definition geo_mean ::
  "('s, 'g, real) dataframe \<Rightarrow> ('s \<times> 'k) list \<Rightarrow> ('k \<rightharpoonup> fl) \<Rightarrow> fl" where
  "geo_mean EM meta_df tau_s = geo_mean_of (index EM) (effective_lib_size EM meta_df tau_s)"

text \<open>\<^verbatim>\<open>relative_normalization_factor = effective_lib_size / geo_mean\<close>\<close>

definition relative_normalization_factor ::
  "('s, 'g, real) dataframe \<Rightarrow> ('s \<times> 'k) list \<Rightarrow> ('k \<rightharpoonup> fl) \<Rightarrow> 's \<Rightarrow> fl" where
  "relative_normalization_factor EM meta_df tau_s s =
     fdiv (effective_lib_size EM meta_df tau_s s) (geo_mean EM meta_df tau_s)"

subsection \<open>Step VII: normalization of counts\<close>

text \<open>\<^verbatim>\<open>mrn_counts = EM.div(relative_normalization_factor, axis=0)\<close>\<close>

definition mrn_counts ::
  "('s, 'g, real) dataframe \<Rightarrow> ('s \<times> 'k) list \<Rightarrow> ('k \<rightharpoonup> fl) \<Rightarrow> ('s, 'g, fl) dataframe" where
  "mrn_counts EM meta_df tau_s =
     \<lparr>index = index EM, columns = columns EM,
      cell = (\<lambda>s g. fdiv (Fin (cell EM s g)) (relative_normalization_factor EM meta_df tau_s s))\<rparr>"

text \<open>The cells of section 3 run top to bottom: the first exception ends the run.\<close>

definition mrn ::
  "('s, 'g, real) dataframe \<Rightarrow> ('s \<times> 'k::linorder) list \<Rightarrow> 'k \<Rightarrow>
   error + ('s, 'g, fl) dataframe" where
  "mrn EM meta_df ref =
     (case tau EM meta_df ref of
        Inl e \<Rightarrow> Inl e
      | Inr tau_s \<Rightarrow> Inr (mrn_counts EM meta_df tau_s))"

subsection \<open>The median in the spec's words\<close>

text \<open>
  The spec's median of a list of numbers: the middle value of the ordered list when the
  length is odd, the average of the two middle values when it is even. It is stated on
  real numbers, with the library's \<open>sort\<close>, independently of \<open>np_median\<close>.
\<close>

definition median_spec :: "real list \<Rightarrow> real" where
  "median_spec xs =
     (let s = sort xs; n = length xs
      in if odd n then s ! (n div 2) else (s ! (n div 2 - 1) + s ! (n div 2)) / 2)"

subsection \<open>Scaling the raw counts of one sample\<close>

text \<open>The count matrix with every entry of sample \<open>s\<close>'s row multiplied by \<open>k\<close>.\<close>

definition scale_row ::
  "('s, 'g, real) dataframe \<Rightarrow> 's \<Rightarrow> real \<Rightarrow> ('s, 'g, real) dataframe" where
  "scale_row EM s k =
     EM\<lparr>cell := (\<lambda>s' g. if s' = s then k * cell EM s' g else cell EM s' g)\<rparr>"

subsection \<open>Concrete inputs\<close>

text \<open>
  The spec's end-to-end scenario: samples 0 and 1 form clone 0 (group A), samples 2 and 3
  form clone 1 (group B), over three genes.
\<close>

definition EM_scenario :: "(nat, nat, real) dataframe" where
  "EM_scenario =
     \<lparr>index = [0, 1, 2, 3], columns = [0, 1, 2],
      cell = (\<lambda>s g. [[10, 20, 0], [30, 0, 10], [5, 10, 5], [15, 30, 5]] ! s ! g)\<rparr>"

definition meta_scenario :: "(nat \<times> nat) list" where
  "meta_scenario = [(0, 0), (1, 0), (2, 1), (3, 1)]"

definition tau_scenario :: "nat \<rightharpoonup> fl" where
  "tau_scenario = [0 \<mapsto> Fin 1, 1 \<mapsto> Fin (7 / 5)]"

text \<open>
  Two samples, one per clone, over two genes. \<open>EM_disjoint\<close>: the clones express
  disjoint genes. \<open>EM_empty_library\<close>: sample 1 has no read at all. \<open>EM_unit\<close>: every
  count is 1.
\<close>

definition meta_pair :: "(nat \<times> nat) list" where
  "meta_pair = [(0, 0), (1, 1)]"

definition EM_disjoint :: "(nat, nat, real) dataframe" where
  "EM_disjoint =
     \<lparr>index = [0, 1], columns = [0, 1], cell = (\<lambda>s g. if s = g then 1 else 0)\<rparr>"

definition tau_disjoint :: "nat \<rightharpoonup> fl" where
  "tau_disjoint = [0 \<mapsto> Fin 1, 1 \<mapsto> NaN]"

definition EM_empty_library :: "(nat, nat, real) dataframe" where
  "EM_empty_library =
     \<lparr>index = [0, 1], columns = [0, 1], cell = (\<lambda>s g. if s = 0 then 1 else 0)\<rparr>"

definition tau_empty_library :: "nat \<rightharpoonup> fl" where
  "tau_empty_library = [0 \<mapsto> Fin 1, 1 \<mapsto> NaN]"

definition EM_unit :: "(nat, nat, real) dataframe" where
  "EM_unit = \<lparr>index = [0, 1], columns = [0, 1], cell = (\<lambda>s g. 1)\<rparr>"

definition tau_unit :: "nat \<rightharpoonup> fl" where
  "tau_unit = [0 \<mapsto> Fin 1, 1 \<mapsto> Fin 1]"

section \<open>Properties\<close>

subsection \<open>Finite values\<close>

text \<open>On finite values the numpy operations are the operations on the reals.\<close>

lemma finsort_Fin: "finsort (Fin x) (map Fin ys) = map Fin (insort x ys)"
  by (induction ys) auto

lemma fsort_Fin: "fsort (map Fin xs) = map Fin (sort xs)"
  by (induction xs) (auto simp: finsort_Fin)

lemma fsum_Fin: "fsum (map Fin xs) = Fin (sum_list xs)"
  by (induction xs) auto

lemma np_mean_Fin: "xs \<noteq> [] \<Longrightarrow> np_mean (map Fin xs) = Fin (sum_list xs / real (length xs))"
  by (simp add: np_mean_def fsum_Fin)

lemma nanmean_Fin: "xs \<noteq> [] \<Longrightarrow> nanmean (map Fin xs) = Fin (sum_list xs / real (length xs))"
proof -
  assume "xs \<noteq> []"
  have "filter (\<lambda>x. x \<noteq> NaN) (map Fin xs) = map Fin xs"
    by (induction xs) auto
  with \<open>xs \<noteq> []\<close> show ?thesis by (simp add: nanmean_def np_mean_Fin)
qed

lemma take1_drop: "i < length s \<Longrightarrow> take 1 (drop i s) = [s ! i]"
  by (metis One_nat_def take_0 Cons_nth_drop_Suc take_Suc_Cons)

lemma take2_drop: "Suc i < length s \<Longrightarrow> take 2 (drop i s) = [s ! i, s ! Suc i]"
  by (simp add: numeral_2_eq_2 take_Suc_conv_app_nth flip: Cons_nth_drop_Suc)

lemma np_median_Fin:
  assumes "xs \<noteq> []"
  shows "np_median (map Fin xs) = Fin (median_spec xs)"
proof -
  let ?s = "sort xs"
  let ?n = "length xs"
  have nan: "NaN \<notin> set (map Fin xs)" by auto
  have len: "length ?s = ?n" by simp
  have pos: "0 < ?n" using assms by simp
  show ?thesis
  proof (cases "odd ?n")
    case True
    then have m: "?n mod 2 = 1" by presburger
    have i: "?n div 2 < length ?s" using pos by simp
    have "take 1 (drop (?n div 2) (map Fin ?s)) = [Fin (?s ! (?n div 2))]"
      using i by (simp add: take1_drop del: One_nat_def)
    then show ?thesis using nan m True
      by (simp add: np_median_def fsort_Fin median_spec_def np_mean_def Let_def del: One_nat_def)
  next
    case False
    then have m: "?n mod 2 \<noteq> 1" by presburger
    from False obtain b where b: "?n = 2 * b" by (auto elim: evenE)
    with pos have "0 < b" by linarith
    with b have i: "Suc (?n div 2 - 1) < length ?s" "Suc (?n div 2 - 1) = ?n div 2"
      by simp_all
    have "take 2 (drop (?n div 2 - 1) (map Fin ?s)) = [Fin (?s ! (?n div 2 - 1)), Fin (?s ! (?n div 2))]"
      using i take2_drop[of "?n div 2 - 1" "map Fin ?s"] by simp
    then show ?thesis using nan m False
      by (simp add: np_median_def fsort_Fin median_spec_def np_mean_def Let_def del: One_nat_def)
  qed
qed

subsection \<open>The loop of step III\<close>

text \<open>
  The loop returns a Series exactly when every clone is a row of \<open>Y_clonal\<close>; the Series
  then holds, for each clone, the median of that clone's ratios.
\<close>

lemma tau_loop_Inr:
  "tau_loop genes Yc den cs t0 = Inr t \<longleftrightarrow>
     set cs \<subseteq> set (index Yc) \<and>
     t = (\<lambda>c. if c \<in> set cs then Some (np_median (ratios genes (cell Yc c) den)) else t0 c)"
proof (induction cs arbitrary: t0)
  case Nil
  show ?case by auto
next
  case (Cons c cs)
  show ?case
  proof (cases "c \<in> set (index Yc)")
    case False
    then show ?thesis by (simp add: loc_def)
  next
    case True
    have "(\<lambda>c'. if c' \<in> set cs then Some (np_median (ratios genes (cell Yc c') den))
                else (t0(c \<mapsto> np_median (ratios genes (cell Yc c) den))) c') =
          (\<lambda>c'. if c' \<in> set (c # cs) then Some (np_median (ratios genes (cell Yc c') den))
                else t0 c')"
      by (auto simp: fun_eq_iff)
    with True show ?thesis by (simp add: loc_def Cons.IH)
  qed
qed

lemma tau_Inr:
  "tau EM meta_df ref = Inr tau_s \<longleftrightarrow>
     ref \<in> set (index (Y_clonal (Y EM) meta_df)) \<and>
     set (clones meta_df) \<subseteq> set (index (Y_clonal (Y EM) meta_df)) \<and>
     tau_s = (\<lambda>c. if c \<in> set (clones meta_df)
                   then Some (np_median (ratios (columns EM) (cell (Y_clonal (Y EM) meta_df) c)
                                           (cell (Y_clonal (Y EM) meta_df) ref)))
                   else None)"
  by (auto simp: tau_def Y_ref_def loc_def tau_loop_Inr fun_eq_iff)

lemma assign_Clone_rows [simp]: "index Yf \<noteq> [] \<Longrightarrow> assign_Clone Yf meta_df = Yf"
  by (simp add: assign_Clone_def)

lemma index_Y_clonal:
  assumes "index Yf \<noteq> []"
  shows "c \<in> set (index (Y_clonal Yf meta_df)) \<longleftrightarrow> members (index Yf) meta_df c \<noteq> []"
  using assms
  by (force simp: Y_clonal_def members_def List.map_filter_def filter_empty_conv image_iff)

lemma index_Y_clonal_meta:
  assumes "c \<in> set (index (Y_clonal Yf meta_df))"
  shows "c \<in> snd ` set meta_df"
proof -
  from assms obtain s where "map_of meta_df s = Some c"
    by (auto simp: Y_clonal_def Let_def List.map_filter_def)
  then have "(s, c) \<in> set meta_df" by (rule map_of_SomeD)
  then show ?thesis by force
qed

subsection \<open>Rows, columns and cells of the derived frames\<close>

lemma sum_list_divide_const:
  "sum_list (map (\<lambda>x. f x / (c::real)) xs) = sum_list (map f xs) / c"
  by (induction xs) (auto simp: add_divide_distrib)

lemma Y_simps [simp]:
  "index (Y EM) = index EM" "columns (Y EM) = columns EM"
  "cell (Y EM) s g = fdiv (Fin (cell EM s g)) (library_size EM s)"
  by (simp_all add: Y_def)

lemma nanmean_all_NaN: "nanmean (map (\<lambda>s. NaN) xs) = NaN"
  by (simp add: nanmean_def np_mean_def)

lemma Y_clonal_simps [simp]:
  "columns (Y_clonal Yf meta_df) = columns Yf"
  "index Yf \<noteq> [] \<Longrightarrow> cell (Y_clonal Yf meta_df) c g =
     nanmean (map (\<lambda>s. cell Yf s g) (members (index Yf) meta_df c))"
  "index Yf = [] \<Longrightarrow> cell (Y_clonal Yf meta_df) c g = NaN"
  by (simp_all add: Y_clonal_def assign_Clone_def nanmean_all_NaN)

lemma scale_row_simps [simp]:
  "index (scale_row EM s k) = index EM" "columns (scale_row EM s k) = columns EM"
  "cell (scale_row EM s k) s' = (if s' = s then (\<lambda>g. k * cell EM s' g) else cell EM s')"
  by (auto simp: scale_row_def)

subsection \<open>Step I: the library-size scaler\<close>

text \<open>
  C3: for every count matrix and every sample, \<open>Y[sample, gene]\<close> is the count divided
  by the sum of the sample's row (the float64 quotient, whatever the sum). Where the row
  sum is not zero the quotient is the real quotient, and the sample's row of \<open>Y\<close> sums
  to 1.
\<close>

theorem library_size_scaler:
  "cell (Y EM) s g = fdiv (Fin (cell EM s g)) (Fin (sum_list (map (cell EM s) (columns EM)))) \<and>
   (sum_list (map (cell EM s) (columns EM)) \<noteq> 0 \<longrightarrow>
      cell (Y EM) s g = Fin (cell EM s g / sum_list (map (cell EM s) (columns EM))) \<and>
      fsum (map (cell (Y EM) s) (columns EM)) = Fin 1)"
proof -
  let ?L = "sum_list (map (cell EM s) (columns EM))"
  have "fsum (map (cell (Y EM) s) (columns EM)) = Fin 1" if "?L \<noteq> 0"
  proof -
    have "map (cell (Y EM) s) (columns EM) = map Fin (map (\<lambda>g. cell EM s g / ?L) (columns EM))"
      using that by (simp add: library_size_def)
    then show ?thesis
      using that by (simp only: fsum_Fin sum_list_divide_const) simp
  qed
  then show ?thesis by (simp add: library_size_def)
qed

theorem library_size_scaler_witness:
  "sum_list (map (cell EM_scenario 1) (columns EM_scenario)) \<noteq> 0 \<and>
   cell (Y EM_scenario) 1 2 = Fin (1 / 4) \<and>
   fsum (map (cell (Y EM_scenario) 1) (columns EM_scenario)) = Fin 1"
  using library_size_scaler [of EM_scenario 1 2] by (simp add: EM_scenario_def library_size_def)

subsection \<open>Step II: a reference clone that no sample has\<close>

text \<open>
  C9: when the reference clone does not occur in the group assignment \<open>meta_df\<close>,
  \<^verbatim>\<open>Y_clonal.loc[ref]\<close> raises \<^verbatim>\<open>KeyError\<close>, a \<^verbatim>\<open>LookupError\<close>; no reference
  profile is returned, the loop of step III does not run and the run has no output.
\<close>

theorem reference_absent:
  assumes "ref \<notin> snd ` set meta_df"
  shows "Y_ref (Y_clonal (Y EM) meta_df) ref = Inl KeyError \<and>
         tau EM meta_df ref = Inl KeyError \<and>
         mrn EM meta_df ref = Inl KeyError"
proof -
  have "ref \<notin> set (index (Y_clonal (Y EM) meta_df))"
    using assms by (blast dest: index_Y_clonal_meta)
  then show ?thesis
    by (simp add: Y_ref_def loc_def tau_def mrn_def)
qed

theorem reference_absent_witness:
  "2 \<notin> snd ` set meta_scenario \<and>
   Y_ref (Y_clonal (Y EM_scenario) meta_scenario) 2 = Inl KeyError \<and>
   tau EM_scenario meta_scenario 2 = Inl KeyError \<and>
   mrn EM_scenario meta_scenario 2 = Inl KeyError"
  using reference_absent [of 2 meta_scenario EM_scenario] by (simp add: meta_scenario_def)

subsection \<open>Scaling one sample's row\<close>

lemma fdiv_scale:
  "0 < k \<Longrightarrow> fdiv (Fin (k * a)) (Fin (k * b)) = fdiv (Fin a) (Fin b)"
  by (simp add: zero_less_mult_iff)

lemma Y_scale_row:
  assumes "0 < k" shows "Y (scale_row EM s k) = Y EM"
proof -
  have "sum_list (map (\<lambda>g. k * cell EM s g) (columns EM)) = k * sum_list (map (cell EM s) (columns EM))"
    by (simp add: sum_list_const_mult)
  then have "library_size (scale_row EM s k) s =
        Fin (k * sum_list (map (cell EM s) (columns EM)))"
    by (simp add: library_size_def)
  moreover have "library_size (scale_row EM s k) s' = library_size EM s'" if "s' \<noteq> s" for s'
    using that by (simp add: library_size_def)
  ultimately have "fdiv (Fin (cell (scale_row EM s k) s' g)) (library_size (scale_row EM s k) s') =
        fdiv (Fin (cell EM s' g)) (library_size EM s')" for s' g
    using fdiv_scale [OF assms, of "cell EM s g" "sum_list (map (cell EM s) (columns EM))"]
    by (cases "s' = s") (simp_all add: library_size_def)
  then show ?thesis
    by (simp add: Y_def)
qed

text \<open>
  C10: multiplying every raw count of one sample \<open>s\<close> by a constant \<open>k > 0\<close> leaves
  the library-size-normalized frame \<open>Y\<close> (so the row of \<open>s\<close>), every group profile, the
  reference profile and every clone's tau unchanged, whichever clone \<open>s\<close> belongs to:
  the factor cancels in the division by the library size.
\<close>

theorem scaling_cancels:
  assumes "0 < k"
  shows "Y (scale_row EM s k) = Y EM \<and>
         Y_clonal (Y (scale_row EM s k)) meta_df = Y_clonal (Y EM) meta_df \<and>
         Y_ref (Y_clonal (Y (scale_row EM s k)) meta_df) ref = Y_ref (Y_clonal (Y EM) meta_df) ref \<and>
         tau (scale_row EM s k) meta_df ref = tau EM meta_df ref"
proof -
  have eq: "Y (scale_row EM s k) = Y EM"
    by (rule Y_scale_row [OF assms])
  show ?thesis
    unfolding tau_def eq by (simp cong: sum.case_cong)
qed

theorem scaling_cancels_witness:
  "(0::real) < 3 \<and>
   Y (scale_row EM_scenario 0 3) = Y EM_scenario \<and>
   Y_clonal (Y (scale_row EM_scenario 0 3)) meta_scenario = Y_clonal (Y EM_scenario) meta_scenario \<and>
   Y_ref (Y_clonal (Y (scale_row EM_scenario 0 3)) meta_scenario) 0 =
     Y_ref (Y_clonal (Y EM_scenario) meta_scenario) 0 \<and>
   tau (scale_row EM_scenario 0 3) meta_scenario 0 = tau EM_scenario meta_scenario 0"
  using scaling_cancels [of 3 EM_scenario 0 meta_scenario 0] by simp

subsection \<open>The scenario evaluated\<close>

text \<open>The stages of the run on \<open>EM_scenario\<close>, with clone 0 as the reference.\<close>

lemma clones_scenario: "clones meta_scenario = [0, 1]"
  by (simp add: clones_def meta_scenario_def)

lemma index_scenario_nonempty [simp]: "index EM_scenario \<noteq> []"
  by (simp add: EM_scenario_def)

lemma index_Y_clonal_scenario:
  "index (Y_clonal (Y EM_scenario) meta_scenario) = [0, 1]"
  by (simp add: Y_clonal_def List.map_filter_def)
     (simp add: EM_scenario_def meta_scenario_def)

lemma members_scenario:
  "members (index EM_scenario) meta_scenario 0 = [0, 1]"
  "members (index EM_scenario) meta_scenario (Suc 0) = [2, 3]"
  by (simp_all add: members_def EM_scenario_def meta_scenario_def)

lemma library_size_scenario:
  "library_size EM_scenario 0 = Fin 30" "library_size EM_scenario (Suc 0) = Fin 40"
  "library_size EM_scenario 2 = Fin 20" "library_size EM_scenario 3 = Fin 50"
  by (simp_all add: library_size_def EM_scenario_def)

lemma Y_clonal_scenario:
  "map (cell (Y_clonal (Y EM_scenario) meta_scenario) 0) [0, 1, 2] =
     [Fin (13 / 24), Fin (1 / 3), Fin (1 / 8)]"
  "map (cell (Y_clonal (Y EM_scenario) meta_scenario) (Suc 0)) [0, 1, 2] =
     [Fin (11 / 40), Fin (11 / 20), Fin (7 / 40)]"
  by (simp_all add: members_scenario library_size_scenario nanmean_def np_mean_def)
     (simp_all add: EM_scenario_def library_size_def)

lemma ratios_scenario:
  "ratios (columns EM_scenario) (cell (Y_clonal (Y EM_scenario) meta_scenario) 0)
     (cell (Y_clonal (Y EM_scenario) meta_scenario) 0) = [Fin 1, Fin 1, Fin 1]"
  "ratios (columns EM_scenario) (cell (Y_clonal (Y EM_scenario) meta_scenario) (Suc 0))
     (cell (Y_clonal (Y EM_scenario) meta_scenario) 0) = [Fin (33 / 65), Fin (33 / 20), Fin (7 / 5)]"
  using Y_clonal_scenario by (simp_all add: ratios_def ok_genes_def EM_scenario_def)

lemma tau_scenario_eval: "tau EM_scenario meta_scenario 0 = Inr tau_scenario"
  unfolding tau_Inr
  by (auto simp: index_Y_clonal_scenario clones_scenario tau_scenario_def fun_eq_iff
        ratios_scenario np_median_def np_mean_def)

lemma EM_scenario_nonneg:
  "\<forall>s \<in> set (index EM_scenario). \<forall>gene \<in> set (columns EM_scenario). 0 \<le> cell EM_scenario s gene"
  by (simp add: EM_scenario_def)

lemma EM_scenario_libpos:
  "\<forall>s \<in> set (index EM_scenario). 0 < sum_list (map (cell EM_scenario s) (columns EM_scenario))"
  by (simp add: EM_scenario_def)

lemma meta_scenario_grouped:
  "\<forall>s \<in> set (index EM_scenario). map_of meta_scenario s \<noteq> None"
  by (simp add: EM_scenario_def meta_scenario_def)

lemma ok_genes_scenario:
  "\<forall>c \<in> set (clones meta_scenario).
     ok_genes (columns EM_scenario) (cell (Y_clonal (Y EM_scenario) meta_scenario) c)
       (cell (Y_clonal (Y EM_scenario) meta_scenario) 0) \<noteq> []"
  using Y_clonal_scenario by (simp add: clones_scenario ok_genes_def EM_scenario_def)

lemma mrn_scenario:
  "mrn EM_scenario meta_scenario 0 = Inr (mrn_counts EM_scenario meta_scenario tau_scenario)"
  by (simp add: mrn_def tau_scenario_eval)

lemma effective_lib_size_scenario:
  "map (effective_lib_size EM_scenario meta_scenario tau_scenario) (index EM_scenario) =
     [Fin 30, Fin 40, Fin 28, Fin 70]"
  by (simp add: effective_lib_size_def scalar_lib_size_def clonalities_def library_size_def
      EM_scenario_def meta_scenario_def tau_scenario_def)

subsection \<open>Step III: tau is the median of the ratios\<close>

lemma ratios_Fin:
  assumes "\<forall>gene \<in> set genes. num gene = Fin (gp gene) \<and> den gene = Fin (rp gene)"
  shows "ratios genes num den =
           map Fin (map (\<lambda>gene. gp gene / rp gene)
                      (filter (\<lambda>gene. gp gene \<noteq> 0 \<and> rp gene \<noteq> 0) genes))"
proof -
  have ok: "ok_genes genes num den = filter (\<lambda>gene. gp gene \<noteq> 0 \<and> rp gene \<noteq> 0) genes"
    unfolding ok_genes_def using assms by (intro filter_cong) auto
  show ?thesis
    unfolding ratios_def ok using assms by (auto simp: comp_def)
qed

text \<open>
  C1: when the loop completes, the tau of every clone \<open>g\<close> is \<^verbatim>\<open>np.median\<close> of the
  ratios \<open>GroupProfile[g, gene] / ReferenceProfile[gene]\<close> over exactly the genes where
  neither profile is 0. Where the two profiles are finite and at least one such gene
  exists, this is the spec's median of the real ratios: the middle value, or the average of
  the two middle values for an even number of ratios.
\<close>

theorem tau_is_median_of_ratios:
  assumes "tau EM meta_df ref = Inr tau_s" and "g \<in> set (clones meta_df)"
  shows "tau_s g =
           Some (np_median
             (map (\<lambda>gene. fdiv (cell (Y_clonal (Y EM) meta_df) g gene)
                               (cell (Y_clonal (Y EM) meta_df) ref gene))
                (filter (\<lambda>gene. cell (Y_clonal (Y EM) meta_df) g gene \<noteq> Fin 0 \<and>
                                cell (Y_clonal (Y EM) meta_df) ref gene \<noteq> Fin 0)
                   (columns EM)))) \<and>
         ((\<forall>gene \<in> set (columns EM).
              cell (Y_clonal (Y EM) meta_df) g gene = Fin (GroupProfile gene) \<and>
              cell (Y_clonal (Y EM) meta_df) ref gene = Fin (ReferenceProfile gene)) \<and>
          (\<exists>gene \<in> set (columns EM). GroupProfile gene \<noteq> 0 \<and> ReferenceProfile gene \<noteq> 0) \<longrightarrow>
          tau_s g =
            Some (Fin (median_spec
              (map (\<lambda>gene. GroupProfile gene / ReferenceProfile gene)
                 (filter (\<lambda>gene. GroupProfile gene \<noteq> 0 \<and> ReferenceProfile gene \<noteq> 0)
                    (columns EM))))))"
proof -
  let ?Yc = "Y_clonal (Y EM) meta_df"
  from assms have t: "tau_s g = Some (np_median (ratios (columns EM) (cell ?Yc g) (cell ?Yc ref)))"
    by (simp add: tau_Inr)
  have general: "tau_s g =
           Some (np_median
             (map (\<lambda>gene. fdiv (cell ?Yc g gene) (cell ?Yc ref gene))
                (filter (\<lambda>gene. cell ?Yc g gene \<noteq> Fin 0 \<and> cell ?Yc ref gene \<noteq> Fin 0)
                   (columns EM))))"
    using t by (simp add: ratios_def ok_genes_def)
  have finite: "tau_s g =
            Some (Fin (median_spec
              (map (\<lambda>gene. GroupProfile gene / ReferenceProfile gene)
                 (filter (\<lambda>gene. GroupProfile gene \<noteq> 0 \<and> ReferenceProfile gene \<noteq> 0)
                    (columns EM)))))"
    if fin: "\<forall>gene \<in> set (columns EM).
              cell ?Yc g gene = Fin (GroupProfile gene) \<and>
              cell ?Yc ref gene = Fin (ReferenceProfile gene)"
    and ne: "\<exists>gene \<in> set (columns EM). GroupProfile gene \<noteq> 0 \<and> ReferenceProfile gene \<noteq> 0"
  proof -
    let ?rs = "map (\<lambda>gene. GroupProfile gene / ReferenceProfile gene)
                 (filter (\<lambda>gene. GroupProfile gene \<noteq> 0 \<and> ReferenceProfile gene \<noteq> 0)
                    (columns EM))"
    from ne have "?rs \<noteq> []" by (auto simp: filter_empty_conv)
    then have "np_median (map Fin ?rs) = Fin (median_spec ?rs)"
      by (rule np_median_Fin)
    moreover have "ratios (columns EM) (cell ?Yc g) (cell ?Yc ref) = map Fin ?rs"
      using fin by (rule ratios_Fin)
    ultimately show ?thesis using t by simp
  qed
  from general finite show ?thesis by blast
qed

theorem tau_is_median_of_ratios_witness:
  "tau EM_scenario meta_scenario 0 = Inr tau_scenario \<and>
   1 \<in> set (clones meta_scenario) \<and>
   map (cell (Y_clonal (Y EM_scenario) meta_scenario) 1) (columns EM_scenario) =
     [Fin (11 / 40), Fin (11 / 20), Fin (7 / 40)] \<and>
   map (cell (Y_clonal (Y EM_scenario) meta_scenario) 0) (columns EM_scenario) =
     [Fin (13 / 24), Fin (1 / 3), Fin (1 / 8)] \<and>
   tau_scenario 1 = Some (np_median [Fin (33 / 65), Fin (33 / 20), Fin (7 / 5)]) \<and>
   tau_scenario 1 = Some (Fin (median_spec [33 / 65, 33 / 20, 7 / 5]))"
proof -
  have h1: "tau EM_scenario meta_scenario 0 = Inr tau_scenario"
    by (rule tau_scenario_eval)
  have h2: "1 \<in> set (clones meta_scenario)"
    by (simp add: clones_scenario)
  have cols: "columns EM_scenario = [0, 1, 2]"
    by (simp add: EM_scenario_def)
  have p1: "map (cell (Y_clonal (Y EM_scenario) meta_scenario) 1) (columns EM_scenario) =
     [Fin (11 / 40), Fin (11 / 20), Fin (7 / 40)]"
    and p0: "map (cell (Y_clonal (Y EM_scenario) meta_scenario) 0) (columns EM_scenario) =
     [Fin (13 / 24), Fin (1 / 3), Fin (1 / 8)]"
    using Y_clonal_scenario by (simp_all add: cols)
  have h3: "\<forall>gene \<in> set (columns EM_scenario).
      cell (Y_clonal (Y EM_scenario) meta_scenario) 1 gene = Fin ([11 / 40, 11 / 20, 7 / 40] ! gene) \<and>
      cell (Y_clonal (Y EM_scenario) meta_scenario) 0 gene = Fin ([13 / 24, 1 / 3, 1 / 8] ! gene)"
    using Y_clonal_scenario by (simp add: cols)
  have h4: "\<exists>gene \<in> set (columns EM_scenario).
      [11 / 40, 11 / 20, 7 / 40 :: real] ! gene \<noteq> 0 \<and> [13 / 24, 1 / 3, 1 / 8 :: real] ! gene \<noteq> 0"
    by (simp add: cols)
  from tau_is_median_of_ratios [OF h1 h2,
      of "\<lambda>gene. [11 / 40, 11 / 20, 7 / 40] ! gene" "\<lambda>gene. [13 / 24, 1 / 3, 1 / 8] ! gene"] h3 h4
  have "tau_scenario 1 = Some (np_median [Fin (33 / 65), Fin (33 / 20), Fin (7 / 5)]) \<and>
   tau_scenario 1 = Some (Fin (median_spec [33 / 65, 33 / 20, 7 / 5]))"
    using Y_clonal_scenario by (simp add: cols np_median_def np_mean_def median_spec_def)
  with h1 h2 p1 p0 show ?thesis by blast
qed

subsection \<open>The spec's median lies between two of the values\<close>

lemma median_spec_between:
  assumes "xs \<noteq> []"
  shows "\<exists>a \<in> set xs. \<exists>b \<in> set xs. median_spec xs = (a + b) / 2"
proof -
  let ?s = "sort xs"
  let ?n = "length xs"
  have pos: "0 < ?n" using assms by simp
  have mem: "?s ! i \<in> set xs" if "i < ?n" for i
    using that nth_mem [of i ?s] by simp
  show ?thesis
  proof (cases "odd ?n")
    case True
    have "?n div 2 < ?n" using pos by simp
    then have "?s ! (?n div 2) \<in> set xs" by (rule mem)
    moreover have "median_spec xs = (?s ! (?n div 2) + ?s ! (?n div 2)) / 2"
      using True by (simp add: median_spec_def Let_def)
    ultimately show ?thesis by blast
  next
    case False
    have "?n div 2 < ?n" using pos by simp
    then have "?n div 2 - 1 < ?n" "?n div 2 < ?n" by (simp_all only: less_imp_diff_less)
    then have "?s ! (?n div 2 - 1) \<in> set xs" "?s ! (?n div 2) \<in> set xs"
      by (simp_all only: mem)
    moreover have "median_spec xs = (?s ! (?n div 2 - 1) + ?s ! (?n div 2)) / 2"
      using False by (simp add: median_spec_def Let_def)
    ultimately show ?thesis by blast
  qed
qed

lemma median_spec_const:
  assumes "xs \<noteq> []" and "\<forall>x \<in> set xs. x = a"
  shows "median_spec xs = a"
proof -
  from median_spec_between [OF assms(1)]
  obtain b c where bc: "b \<in> set xs" "c \<in> set xs" and m: "median_spec xs = (b + c) / 2"
    by blast
  from bc assms(2) have "b = a" "c = a" by blast+
  then show ?thesis unfolding m by simp
qed

lemma median_spec_pos:
  assumes "xs \<noteq> []" and "\<forall>x \<in> set xs. 0 < x"
  shows "0 < median_spec xs"
proof -
  from median_spec_between [OF assms(1)]
  obtain b c where bc: "b \<in> set xs" "c \<in> set xs" and m: "median_spec xs = (b + c) / 2"
    by blast
  from bc assms(2) have "0 < b" "0 < c" by blast+
  then show ?thesis unfolding m by simp
qed

subsection \<open>Non-negative counts: a row of \<open>Y\<close> is finite or all NaN\<close>

lemma np_mean_Nil: "np_mean [] = NaN"
  by (simp add: np_mean_def)

lemma nanmean_split:
  assumes "\<forall>s \<in> set ms. f s = (if P s then Fin (r s) else NaN)"
  shows "nanmean (map f ms) =
           (if filter P ms = [] then NaN
            else Fin (sum_list (map r (filter P ms)) / real (length (filter P ms))))"
proof -
  from assms have "filter (\<lambda>x. x \<noteq> NaN) (map f ms) = map Fin (map r (filter P ms))"
    by (induction ms) auto
  then show ?thesis
    by (simp add: nanmean_def np_mean_Nil np_mean_Fin del: map_map)
qed

lemma Y_cell_nonneg:
  assumes "\<forall>g \<in> set (columns EM). 0 \<le> cell EM s g" and "g \<in> set (columns EM)"
  shows "cell (Y EM) s g =
           (if sum_list (map (cell EM s) (columns EM)) \<noteq> 0
            then Fin (cell EM s g / sum_list (map (cell EM s) (columns EM))) else NaN)"
proof (cases "sum_list (map (cell EM s) (columns EM)) = 0")
  case True
  have "\<forall>x \<in> set (map (cell EM s) (columns EM)). 0 \<le> x"
    using assms(1) by simp
  then have "\<forall>x \<in> set (map (cell EM s) (columns EM)). x = 0"
    using True sum_list_nonneg_eq_0_iff [of "map (cell EM s) (columns EM)"] by blast
  then have "cell EM s g = 0" using assms(2) by simp
  with True show ?thesis by (simp add: library_size_def)
next
  case False
  then show ?thesis by (simp add: library_size_def)
qed

lemma Y_clonal_cell_nonneg:
  assumes "\<forall>s \<in> set (index EM). \<forall>g \<in> set (columns EM). 0 \<le> cell EM s g"
    and "g \<in> set (columns EM)"
  shows "cell (Y_clonal (Y EM) meta_df) c g =
           (if filter (\<lambda>s. sum_list (map (cell EM s) (columns EM)) \<noteq> 0)
                 (members (index EM) meta_df c) = [] then NaN
            else Fin (sum_list (map (\<lambda>s. cell EM s g / sum_list (map (cell EM s) (columns EM)))
                         (filter (\<lambda>s. sum_list (map (cell EM s) (columns EM)) \<noteq> 0)
                            (members (index EM) meta_df c))) /
                      real (length (filter (\<lambda>s. sum_list (map (cell EM s) (columns EM)) \<noteq> 0)
                            (members (index EM) meta_df c)))))"
proof (cases "index EM = []")
  case True
  then show ?thesis by (simp add: members_def)
next
  case False
  then have ne: "index (Y EM) \<noteq> []" by simp
  have c: "cell (Y_clonal (Y EM) meta_df) c g =
      nanmean (map (\<lambda>s. cell (Y EM) s g) (members (index EM) meta_df c))"
    using Y_clonal_simps(2) [OF ne, of meta_df c g] by (simp only: Y_simps(1))
  have "\<forall>s \<in> set (members (index EM) meta_df c). cell (Y EM) s g =
           (if sum_list (map (cell EM s) (columns EM)) \<noteq> 0
            then Fin (cell EM s g / sum_list (map (cell EM s) (columns EM))) else NaN)"
    using assms by (intro ballI Y_cell_nonneg) (auto simp: members_def)
  then show ?thesis
    unfolding c by (rule nanmean_split)
qed

lemma clone_of_row:
  assumes "c \<in> set (index (Y_clonal Yf meta_df))"
  shows "c \<in> set (clones meta_df)"
  using index_Y_clonal_meta [OF assms] by (simp add: clones_def)

subsection \<open>The reference clone's own tau\<close>

text \<open>
  C4: on every count matrix without negative entries on which the loop of step III
  completes, if the reference profile has an entry that is a number other than 0, the
  reference clone's own tau is exactly 1.0: each of its ratios is a value divided by
  itself.
\<close>

theorem reference_tau_is_one:
  assumes "\<forall>s \<in> set (index EM). \<forall>gene \<in> set (columns EM). 0 \<le> cell EM s gene"
    and "tau EM meta_df ref = Inr tau_s"
    and "\<exists>gene \<in> set (columns EM). \<exists>x. cell (Y_clonal (Y EM) meta_df) ref gene = Fin x \<and> x \<noteq> 0"
  shows "tau_s ref = Some (Fin 1)"
proof -
  let ?Yc = "Y_clonal (Y EM) meta_df"
  let ?good = "filter (\<lambda>s. sum_list (map (cell EM s) (columns EM)) \<noteq> 0)
                 (members (index EM) meta_df ref)"
  define q where "q gene =
      sum_list (map (\<lambda>s. cell EM s gene / sum_list (map (cell EM s) (columns EM))) ?good) /
      real (length ?good)" for gene
  from assms(2) have "ref \<in> set (index ?Yc)" by (simp add: tau_Inr)
  then have ref: "ref \<in> set (clones meta_df)" by (rule clone_of_row)
  with assms(2) have t: "tau_s ref = Some (np_median (ratios (columns EM) (cell ?Yc ref) (cell ?Yc ref)))"
    by (simp add: tau_Inr)
  have prof: "cell ?Yc ref gene = (if ?good = [] then NaN else Fin (q gene))"
    if "gene \<in> set (columns EM)" for gene
    unfolding q_def using assms(1) that by (rule Y_clonal_cell_nonneg)
  from assms(3) obtain g0 x where g0: "g0 \<in> set (columns EM)" "cell ?Yc ref g0 = Fin x" "x \<noteq> 0"
    by blast
  with prof [OF g0(1)] have good: "?good \<noteq> []" and q0: "q g0 \<noteq> 0"
    by (auto split: if_splits)
  have fin: "\<forall>gene \<in> set (columns EM). cell ?Yc ref gene = Fin (q gene) \<and> cell ?Yc ref gene = Fin (q gene)"
    using prof good by simp
  let ?rs = "map (\<lambda>gene. q gene / q gene) (filter (\<lambda>gene. q gene \<noteq> 0 \<and> q gene \<noteq> 0) (columns EM))"
  have r: "ratios (columns EM) (cell ?Yc ref) (cell ?Yc ref) = map Fin ?rs"
    using fin by (rule ratios_Fin)
  have ne: "?rs \<noteq> []" using g0(1) q0 by (auto simp: filter_empty_conv)
  have "\<forall>x \<in> set ?rs. x = 1" by auto
  with ne have "median_spec ?rs = 1" by (rule median_spec_const)
  moreover from ne have "np_median (map Fin ?rs) = Fin (median_spec ?rs)"
    by (rule np_median_Fin)
  ultimately show ?thesis unfolding t r by (simp only:)
qed

theorem reference_tau_is_one_witness:
  "list_all (\<lambda>s. list_all (\<lambda>gene. 0 \<le> cell EM_scenario s gene) (columns EM_scenario))
     (index EM_scenario) \<and>
   tau EM_scenario meta_scenario 0 = Inr tau_scenario \<and>
   cell (Y_clonal (Y EM_scenario) meta_scenario) 0 2 = Fin (1 / 8) \<and>
   tau_scenario 0 = Some (Fin 1)"
proof -
  have c: "cell (Y_clonal (Y EM_scenario) meta_scenario) 0 2 = Fin (1 / 8)"
    using Y_clonal_scenario by simp
  moreover have "2 \<in> set (columns EM_scenario)" "(1 / 8 :: real) \<noteq> 0"
    by (simp_all add: EM_scenario_def)
  ultimately have h: "\<exists>gene \<in> set (columns EM_scenario).
      \<exists>x. cell (Y_clonal (Y EM_scenario) meta_scenario) 0 gene = Fin x \<and> x \<noteq> 0"
    by blast
  from reference_tau_is_one [OF EM_scenario_nonneg tau_scenario_eval h]
    EM_scenario_nonneg tau_scenario_eval c
  show ?thesis unfolding list_all_iff by blast
qed

subsection \<open>Steps V to VII on positive effective library sizes\<close>

lemma sum_list_minus_const:
  "sum_list (map (\<lambda>x. f x - (c::real)) xs) = sum_list (map f xs) - real (length xs) * c"
  by (induction xs) (auto simp: algebra_simps)

lemma mrn_counts_simps [simp]:
  "index (mrn_counts EM meta_df tau_s) = index EM"
  "columns (mrn_counts EM meta_df tau_s) = columns EM"
  "cell (mrn_counts EM meta_df tau_s) s g =
     fdiv (Fin (cell EM s g)) (relative_normalization_factor EM meta_df tau_s s)"
  by (simp_all add: mrn_counts_def)

lemma geo_mean_of_pos:
  assumes "samples \<noteq> []" and "\<forall>s \<in> set samples. series s = Fin (E s) \<and> 0 < E s"
  shows "geo_mean_of samples series =
           Fin (exp (sum_list (map (\<lambda>s. ln (E s)) samples) / real (length samples)))"
proof -
  have "map (\<lambda>s. flog (series s)) samples = map Fin (map (\<lambda>s. ln (E s)) samples)"
    using assms(2) by simp
  then show ?thesis
    using assms(1) by (simp add: geo_mean_of_def nanmean_Fin del: map_map)
qed

lemma relative_normalization_factor_pos:
  assumes "index EM \<noteq> []"
    and "\<forall>s \<in> set (index EM). effective_lib_size EM meta_df tau_s s = Fin (E s) \<and> 0 < E s"
    and "s \<in> set (index EM)"
  shows "relative_normalization_factor EM meta_df tau_s s =
           Fin (E s / exp (sum_list (map (\<lambda>s. ln (E s)) (index EM)) / real (length (index EM))))"
  using assms(3) assms(2) geo_mean_of_pos [OF assms(1) assms(2)]
  by (simp add: relative_normalization_factor_def geo_mean_def)

lemma mrn_counts_pos:
  assumes "index EM \<noteq> []"
    and "\<forall>s \<in> set (index EM). effective_lib_size EM meta_df tau_s s = Fin (E s) \<and> 0 < E s"
    and "s \<in> set (index EM)"
  shows "cell (mrn_counts EM meta_df tau_s) s g =
           Fin (cell EM s g /
                (E s / exp (sum_list (map (\<lambda>s. ln (E s)) (index EM)) / real (length (index EM)))))"
proof -
  from assms(2,3) have "0 < E s" by blast
  then show ?thesis
    using relative_normalization_factor_pos [OF assms] by simp
qed

subsection \<open>The normalized counts\<close>

lemma mrn_Inr:
  "mrn EM meta_df ref = Inr out \<longleftrightarrow>
     (\<exists>tau_s. tau EM meta_df ref = Inr tau_s \<and> out = mrn_counts EM meta_df tau_s)"
  by (auto simp: mrn_def split: sum.splits)

text \<open>
  C2: on a well-formed input (no negative count, every library size positive, every sample
  assigned to a clone, a gene with nonzero value in both profiles for every clone) the
  output of the run has the index and the columns of the count matrix \<open>EM\<close>, and
  \<open>MRNCounts[s, gene] = EM[s, gene] / RNF[s]\<close> on the raw counts, where
  \<open>RNF[s] = Eff[s] / exp(mean over the samples of log Eff)\<close> and
  \<open>Eff[s] = Tau[clone of s] * LibrarySize[s]\<close>. \<open>Tau\<close> is the tau of the loop, a number
  for every clone when the matrix has a sample (on a matrix with no sample the taus are
  NaN and the output has no cell).
\<close>

theorem mrn_counts_formula:
  assumes out: "mrn EM meta_df ref = Inr out"
    and nonneg: "\<forall>s \<in> set (index EM). \<forall>gene \<in> set (columns EM). 0 \<le> cell EM s gene"
    and libpos: "\<forall>s \<in> set (index EM). 0 < sum_list (map (cell EM s) (columns EM))"
    and grouped: "\<forall>s \<in> set (index EM). map_of meta_df s \<noteq> None"
    and ok: "\<forall>c \<in> set (clones meta_df).
               ok_genes (columns EM) (cell (Y_clonal (Y EM) meta_df) c)
                 (cell (Y_clonal (Y EM) meta_df) ref) \<noteq> []"
  shows "index out = index EM \<and> columns out = columns EM \<and>
         (\<exists>tau_s Tau.
            tau EM meta_df ref = Inr tau_s \<and>
            (index EM \<noteq> [] \<longrightarrow> (\<forall>c \<in> set (clones meta_df). tau_s c = Some (Fin (Tau c)))) \<and>
            (\<forall>s \<in> set (index EM). \<forall>gene \<in> set (columns EM).
               cell out s gene =
                 Fin (cell EM s gene /
                      (Tau (the (map_of meta_df s)) * sum_list (map (cell EM s) (columns EM)) /
                       exp (sum_list
                              (map (\<lambda>s'. ln (Tau (the (map_of meta_df s')) *
                                             sum_list (map (cell EM s') (columns EM))))
                                 (index EM)) /
                            real (length (index EM)))))))"
proof (cases "index EM = []")
  case True
  from out obtain tau_s where "tau EM meta_df ref = Inr tau_s"
    and "out = mrn_counts EM meta_df tau_s"
    by (auto simp: mrn_Inr)
  with True show ?thesis by auto
next
  case ne: False
  let ?Yc = "Y_clonal (Y EM) meta_df"
  let ?L = "\<lambda>s. sum_list (map (cell EM s) (columns EM))"
  from out obtain tau_s where t: "tau EM meta_df ref = Inr tau_s"
    and o: "out = mrn_counts EM meta_df tau_s"
    by (auto simp: mrn_Inr)
  from t have refrow: "ref \<in> set (index ?Yc)"
    and rows: "set (clones meta_df) \<subseteq> set (index ?Yc)"
    and tau_s: "\<And>c. c \<in> set (clones meta_df) \<Longrightarrow>
          tau_s c = Some (np_median (ratios (columns EM) (cell ?Yc c) (cell ?Yc ref)))"
    by (simp_all add: tau_Inr)
  define p where "p c gene =
      sum_list (map (\<lambda>s. cell EM s gene / ?L s) (members (index EM) meta_df c)) /
      real (length (members (index EM) meta_df c))" for c gene
  have good: "filter (\<lambda>s. ?L s \<noteq> 0) (members (index EM) meta_df c) = members (index EM) meta_df c"
    for c
  proof (rule filter_True)
    show "\<forall>s \<in> set (members (index EM) meta_df c). ?L s \<noteq> 0"
      using libpos by (auto simp: members_def)
  qed
  have prof: "cell ?Yc c gene = Fin (p c gene)"
    if "c \<in> set (index ?Yc)" "gene \<in> set (columns EM)" for c gene
  proof -
    from that(1) ne have "members (index EM) meta_df c \<noteq> []"
      by (simp add: index_Y_clonal)
    then show ?thesis
      using Y_clonal_cell_nonneg [OF nonneg that(2), of meta_df c]
      by (simp only: good p_def if_False)
  qed
  have p_nonneg: "0 \<le> p c gene" if "gene \<in> set (columns EM)" for c gene
  proof -
    have "0 \<le> cell EM s gene / ?L s" if "s \<in> set (members (index EM) meta_df c)" for s
      using that \<open>gene \<in> set (columns EM)\<close> nonneg libpos
      by (auto simp: members_def intro!: divide_nonneg_pos)
    then have "0 \<le> sum_list (map (\<lambda>s. cell EM s gene / ?L s) (members (index EM) meta_df c))"
      by (intro sum_list_nonneg) auto
    then show ?thesis by (simp add: p_def)
  qed
  define rs where "rs c = map (\<lambda>gene. p c gene / p ref gene)
      (filter (\<lambda>gene. p c gene \<noteq> 0 \<and> p ref gene \<noteq> 0) (columns EM))" for c
  define Tau where "Tau c = median_spec (rs c)" for c
  have tau_fin: "tau_s c = Some (Fin (Tau c)) \<and> 0 < Tau c" if c: "c \<in> set (clones meta_df)" for c
  proof -
    from c rows have row: "c \<in> set (index ?Yc)" by blast
    have "\<forall>gene \<in> set (columns EM). cell ?Yc c gene = Fin (p c gene) \<and>
            cell ?Yc ref gene = Fin (p ref gene)"
      using prof row refrow by simp
    then have r: "ratios (columns EM) (cell ?Yc c) (cell ?Yc ref) = map Fin (rs c)"
      unfolding rs_def by (rule ratios_Fin)
    from ok c have "ratios (columns EM) (cell ?Yc c) (cell ?Yc ref) \<noteq> []"
      by (simp add: ratios_def)
    with r have ne: "rs c \<noteq> []" by auto
    have "\<forall>x \<in> set (rs c). 0 < x"
    proof
      fix x assume "x \<in> set (rs c)"
      then obtain gene where g: "gene \<in> set (columns EM)" "p c gene \<noteq> 0" "p ref gene \<noteq> 0"
        and x: "x = p c gene / p ref gene"
        by (auto simp: rs_def)
      from g p_nonneg [of gene c] p_nonneg [of gene ref] have "0 < p c gene" "0 < p ref gene"
        by simp_all
      then show "0 < x" by (simp add: x)
    qed
    with ne have "0 < median_spec (rs c)" by (rule median_spec_pos)
    moreover from ne have "np_median (map Fin (rs c)) = Fin (median_spec (rs c))"
      by (rule np_median_Fin)
    ultimately show ?thesis
      using tau_s [OF c] by (simp only: r Tau_def)
  qed
  define E where "E s = Tau (the (map_of meta_df s)) * ?L s" for s
  have eff: "\<forall>s \<in> set (index EM). effective_lib_size EM meta_df tau_s s = Fin (E s) \<and> 0 < E s"
  proof
    fix s assume s: "s \<in> set (index EM)"
    with grouped obtain c where c: "map_of meta_df s = Some c" by blast
    then have "(s, c) \<in> set meta_df" by (rule map_of_SomeD)
    then have "c \<in> set (clones meta_df)" by (force simp: clones_def)
    from tau_fin [OF this] libpos s c
    show "effective_lib_size EM meta_df tau_s s = Fin (E s) \<and> 0 < E s"
      by (simp add: effective_lib_size_def scalar_lib_size_def clonalities_def library_size_def E_def)
  qed
  have "\<forall>s \<in> set (index EM). \<forall>gene \<in> set (columns EM).
      cell out s gene =
        Fin (cell EM s gene /
             (E s / exp (sum_list (map (\<lambda>s'. ln (E s')) (index EM)) / real (length (index EM)))))"
    unfolding o using mrn_counts_pos [OF ne eff] by blast
  with t tau_fin show ?thesis
    unfolding E_def by (auto simp: o)
qed

theorem mrn_counts_formula_witness:
  "mrn EM_scenario meta_scenario 0 = Inr (mrn_counts EM_scenario meta_scenario tau_scenario) \<and>
   list_all (\<lambda>s. list_all (\<lambda>gene. 0 \<le> cell EM_scenario s gene) (columns EM_scenario))
     (index EM_scenario) \<and>
   list_all (\<lambda>s. 0 < sum_list (map (cell EM_scenario s) (columns EM_scenario)))
     (index EM_scenario) \<and>
   list_all (\<lambda>s. map_of meta_scenario s \<noteq> None) (index EM_scenario) \<and>
   index EM_scenario \<noteq> [] \<and>
   list_all (\<lambda>c. ok_genes (columns EM_scenario) (cell (Y_clonal (Y EM_scenario) meta_scenario) c)
                   (cell (Y_clonal (Y EM_scenario) meta_scenario) 0) \<noteq> [])
     (clones meta_scenario) \<and>
   index (mrn_counts EM_scenario meta_scenario tau_scenario) = index EM_scenario \<and>
   columns (mrn_counts EM_scenario meta_scenario tau_scenario) = columns EM_scenario \<and>
   (\<exists>tau_s Tau.
      tau EM_scenario meta_scenario 0 = Inr tau_s \<and>
      (index EM_scenario \<noteq> [] \<longrightarrow>
         (\<forall>c \<in> set (clones meta_scenario). tau_s c = Some (Fin (Tau c)))) \<and>
      (\<forall>s \<in> set (index EM_scenario). \<forall>gene \<in> set (columns EM_scenario).
         cell (mrn_counts EM_scenario meta_scenario tau_scenario) s gene =
           Fin (cell EM_scenario s gene /
                (Tau (the (map_of meta_scenario s)) *
                   sum_list (map (cell EM_scenario s) (columns EM_scenario)) /
                 exp (sum_list
                        (map (\<lambda>s'. ln (Tau (the (map_of meta_scenario s')) *
                                       sum_list (map (cell EM_scenario s') (columns EM_scenario))))
                           (index EM_scenario)) /
                      real (length (index EM_scenario)))))))"
  using mrn_counts_formula [OF mrn_scenario EM_scenario_nonneg EM_scenario_libpos
      meta_scenario_grouped ok_genes_scenario]
    mrn_scenario EM_scenario_nonneg EM_scenario_libpos meta_scenario_grouped ok_genes_scenario
    index_scenario_nonempty
  unfolding list_all_iff by blast

subsection \<open>The two-sample inputs evaluated\<close>

text \<open>The stages of the run on the inputs of two samples, with clone 0 as the reference.\<close>

lemma clones_pair: "clones meta_pair = [0, Suc 0]"
  by (simp add: clones_def meta_pair_def)

lemma members_pair:
  "members [0, Suc 0] meta_pair 0 = [0]"
  "members [0, Suc 0] meta_pair (Suc 0) = [Suc 0]"
  by (simp_all add: members_def meta_pair_def)

lemma index_pair:
  "index EM_disjoint = [0, Suc 0]" "index EM_empty_library = [0, Suc 0]"
  "index EM_unit = [0, Suc 0]"
  by (simp_all add: EM_disjoint_def EM_empty_library_def EM_unit_def)

lemma index_Y_clonal_pair:
  "index EM = [0, Suc 0] \<Longrightarrow> index (Y_clonal (Y EM) meta_pair) = [0, Suc 0]"
  by (simp add: Y_clonal_def List.map_filter_def meta_pair_def)

lemma Y_clonal_disjoint:
  "map (cell (Y_clonal (Y EM_disjoint) meta_pair) 0) [0, Suc 0] = [Fin 1, Fin 0]"
  "map (cell (Y_clonal (Y EM_disjoint) meta_pair) (Suc 0)) [0, Suc 0] = [Fin 0, Fin 1]"
  by (simp_all add: members_pair EM_disjoint_def library_size_def nanmean_def np_mean_def)

lemma ok_genes_disjoint:
  "ok_genes (columns EM_disjoint) (cell (Y_clonal (Y EM_disjoint) meta_pair) (Suc 0))
     (cell (Y_clonal (Y EM_disjoint) meta_pair) 0) = []"
  using Y_clonal_disjoint by (simp add: ok_genes_def EM_disjoint_def)

lemma ratios_disjoint:
  "ratios (columns EM_disjoint) (cell (Y_clonal (Y EM_disjoint) meta_pair) 0)
     (cell (Y_clonal (Y EM_disjoint) meta_pair) 0) = [Fin 1]"
  "ratios (columns EM_disjoint) (cell (Y_clonal (Y EM_disjoint) meta_pair) (Suc 0))
     (cell (Y_clonal (Y EM_disjoint) meta_pair) 0) = []"
  using Y_clonal_disjoint by (simp_all add: ratios_def ok_genes_def EM_disjoint_def)

lemma tau_disjoint_eval: "tau EM_disjoint meta_pair 0 = Inr tau_disjoint"
  unfolding tau_Inr
  by (auto simp: index_Y_clonal_pair index_pair clones_pair tau_disjoint_def fun_eq_iff
        ratios_disjoint np_median_def np_mean_def)

lemma Y_clonal_empty_library:
  "map (cell (Y_clonal (Y EM_empty_library) meta_pair) 0) [0, Suc 0] = [Fin (1 / 2), Fin (1 / 2)]"
  "map (cell (Y_clonal (Y EM_empty_library) meta_pair) (Suc 0)) [0, Suc 0] = [NaN, NaN]"
  by (simp_all add: members_pair EM_empty_library_def library_size_def nanmean_def np_mean_def)

lemma ratios_empty_library:
  "ratios (columns EM_empty_library) (cell (Y_clonal (Y EM_empty_library) meta_pair) 0)
     (cell (Y_clonal (Y EM_empty_library) meta_pair) 0) = [Fin 1, Fin 1]"
  "ratios (columns EM_empty_library) (cell (Y_clonal (Y EM_empty_library) meta_pair) (Suc 0))
     (cell (Y_clonal (Y EM_empty_library) meta_pair) 0) = [NaN, NaN]"
  using Y_clonal_empty_library by (simp_all add: ratios_def ok_genes_def EM_empty_library_def)

lemma tau_empty_library_eval: "tau EM_empty_library meta_pair 0 = Inr tau_empty_library"
  unfolding tau_Inr
  by (auto simp: index_Y_clonal_pair index_pair clones_pair tau_empty_library_def fun_eq_iff
        ratios_empty_library np_median_def np_mean_def)

lemma Y_clonal_unit:
  "map (cell (Y_clonal (Y EM_unit) meta_pair) 0) [0, Suc 0] = [Fin (1 / 2), Fin (1 / 2)]"
  "map (cell (Y_clonal (Y EM_unit) meta_pair) (Suc 0)) [0, Suc 0] = [Fin (1 / 2), Fin (1 / 2)]"
  by (simp_all add: members_pair EM_unit_def library_size_def nanmean_def np_mean_def)

lemma ratios_unit:
  "ratios (columns EM_unit) (cell (Y_clonal (Y EM_unit) meta_pair) 0)
     (cell (Y_clonal (Y EM_unit) meta_pair) 0) = [Fin 1, Fin 1]"
  "ratios (columns EM_unit) (cell (Y_clonal (Y EM_unit) meta_pair) (Suc 0))
     (cell (Y_clonal (Y EM_unit) meta_pair) 0) = [Fin 1, Fin 1]"
  using Y_clonal_unit by (simp_all add: ratios_def ok_genes_def EM_unit_def)

lemma tau_unit_eval: "tau EM_unit meta_pair 0 = Inr tau_unit"
  unfolding tau_Inr
  by (auto simp: index_Y_clonal_pair index_pair clones_pair tau_unit_def fun_eq_iff
        ratios_unit np_median_def np_mean_def)

lemma effective_lib_size_unit:
  "map (effective_lib_size EM_unit meta_pair tau_unit) [0, Suc 0] = [Fin 2, Fin 2]"
  "map (effective_lib_size (scale_row EM_unit 1 4) meta_pair tau_unit) [0, Suc 0] = [Fin 2, Fin 8]"
  by (simp_all add: effective_lib_size_def scalar_lib_size_def clonalities_def library_size_def
      EM_unit_def meta_pair_def tau_unit_def)

lemma geo_mean_unit:
  "geo_mean EM_unit meta_pair tau_unit = Fin 2"
  using effective_lib_size_unit(1)
  by (simp add: geo_mean_def geo_mean_of_def nanmean_def np_mean_def EM_unit_def)

lemma ln_2_8: "ln (2::real) + ln 8 = 2 * ln 4"
proof -
  have "ln (2::real) + ln 8 = ln (2 * 8)" by (rule ln_mult_pos [symmetric]) simp_all
  also have "\<dots> = ln (4 ^ 2)" by simp
  also have "\<dots> = 2 * ln 4" by (simp only: ln_realpow)
  finally show ?thesis .
qed

lemma geo_mean_unit_scaled:
  "geo_mean (scale_row EM_unit 1 4) meta_pair tau_unit = Fin 4"
  using effective_lib_size_unit(2)
  by (simp add: geo_mean_def geo_mean_of_def nanmean_def np_mean_def EM_unit_def ln_2_8)

text \<open>
  On \<open>EM_unit\<close> with the counts of sample 1 multiplied by 4, the relative normalization
  factors are \<open>1/2\<close> and \<open>2\<close>: their arithmetic mean is \<open>5/4\<close>, not 1.
\<close>

lemma relative_normalization_factor_unit_scaled:
  "map (relative_normalization_factor (scale_row EM_unit 1 4) meta_pair tau_unit) [0, Suc 0] =
     [Fin (1 / 2), Fin 2]"
  using effective_lib_size_unit(2) geo_mean_unit_scaled
  by (simp add: relative_normalization_factor_def)

lemma arithmetic_mean_unit_scaled:
  "nanmean (map (relative_normalization_factor (scale_row EM_unit 1 4) meta_pair tau_unit)
     [0, Suc 0]) = Fin (5 / 4)"
  using relative_normalization_factor_unit_scaled by (simp add: nanmean_def np_mean_def)

subsection \<open>The geometric mean of the relative normalization factors\<close>

lemma tau_unit_scaled_eval: "tau (scale_row EM_unit 1 4) meta_pair 0 = Inr tau_unit"
proof -
  have "Y (scale_row EM_unit 1 4) = Y EM_unit"
    by (rule Y_scale_row) simp
  then have "tau (scale_row EM_unit 1 4) meta_pair 0 = tau EM_unit meta_pair 0"
    unfolding tau_def by (simp cong: sum.case_cong)
  then show ?thesis by (simp add: tau_unit_eval)
qed

lemma arithmetic_mean_not_one:
  "\<exists>(EM :: (nat, nat, real) dataframe) (meta_df :: (nat \<times> nat) list) ref tau_s.
     tau EM meta_df ref = Inr tau_s \<and> index EM \<noteq> [] \<and>
     (\<forall>s \<in> set (index EM). \<exists>e. effective_lib_size EM meta_df tau_s s = Fin e \<and> 0 < e) \<and>
     nanmean (map (relative_normalization_factor EM meta_df tau_s) (index EM)) \<noteq> Fin 1"
proof -
  let ?EM = "scale_row EM_unit 1 4"
  have "\<forall>s \<in> set (index ?EM). \<exists>e. effective_lib_size ?EM meta_pair tau_unit s = Fin e \<and> 0 < e"
    using effective_lib_size_unit(2) by (simp add: index_pair)
  moreover have "nanmean (map (relative_normalization_factor ?EM meta_pair tau_unit) (index ?EM))
      \<noteq> Fin 1"
    using arithmetic_mean_unit_scaled by (simp add: index_pair)
  moreover have "index ?EM \<noteq> []" by (simp add: index_pair)
  ultimately show ?thesis using tau_unit_scaled_eval by blast
qed

text \<open>
  C5: on every input with at least one sample and every effective library size a positive
  number \<open>E s\<close> (for the taus of a completed loop as for any Series of taus), each relative
  normalization factor is the number \<open>R s = E s / exp(mean over the samples of ln E)\<close>,
  and the geometric mean of the factors, \<open>exp(mean over the samples of ln R)\<close>, is 1; the
  notebook's own \<^verbatim>\<open>np.exp(series.apply(np.log).mean())\<close> returns 1.0 on them. Their
  arithmetic mean need not be 1: there is a completed run with positive effective library
  sizes where it is not.
\<close>

theorem relative_factors_geometric_mean:
  assumes "index EM \<noteq> []"
    and "\<forall>s \<in> set (index EM). \<exists>e. effective_lib_size EM meta_df tau_s s = Fin e \<and> 0 < e"
  shows "(\<exists>E R.
            (\<forall>s \<in> set (index EM).
               effective_lib_size EM meta_df tau_s s = Fin (E s) \<and> 0 < E s \<and>
               relative_normalization_factor EM meta_df tau_s s = Fin (R s) \<and>
               R s = E s / exp (sum_list (map (\<lambda>s'. ln (E s')) (index EM)) /
                                real (length (index EM)))) \<and>
            exp (sum_list (map (\<lambda>s. ln (R s)) (index EM)) / real (length (index EM))) = 1) \<and>
         geo_mean_of (index EM) (relative_normalization_factor EM meta_df tau_s) = Fin 1 \<and>
         (\<exists>(EM' :: (nat, nat, real) dataframe) (meta_df' :: (nat \<times> nat) list) ref' tau_s'.
            tau EM' meta_df' ref' = Inr tau_s' \<and> index EM' \<noteq> [] \<and>
            (\<forall>s \<in> set (index EM').
               \<exists>e. effective_lib_size EM' meta_df' tau_s' s = Fin e \<and> 0 < e) \<and>
            nanmean (map (relative_normalization_factor EM' meta_df' tau_s') (index EM')) \<noteq> Fin 1)"
proof -
  let ?n = "real (length (index EM))"
  from assms(2) obtain E where
    E: "\<forall>s \<in> set (index EM). effective_lib_size EM meta_df tau_s s = Fin (E s) \<and> 0 < E s"
    by metis
  define m where "m = sum_list (map (\<lambda>s. ln (E s)) (index EM)) / ?n"
  define R where "R s = E s / exp m" for s
  have rnf: "\<forall>s \<in> set (index EM).
      relative_normalization_factor EM meta_df tau_s s = Fin (R s) \<and> 0 < R s"
    using relative_normalization_factor_pos [OF assms(1) E] E by (simp add: m_def R_def)
  have "map (\<lambda>s. ln (R s)) (index EM) = map (\<lambda>s. ln (E s) - m) (index EM)"
  proof (rule map_cong [OF refl])
    fix s assume "s \<in> set (index EM)"
    with E have "0 < E s" by blast
    then show "ln (R s) = ln (E s) - m" by (simp add: R_def ln_div)
  qed
  then have "sum_list (map (\<lambda>s. ln (R s)) (index EM)) =
        sum_list (map (\<lambda>s. ln (E s)) (index EM)) - ?n * m"
    by (simp only: sum_list_minus_const)
  also have "\<dots> = 0" using assms(1) by (simp add: m_def)
  finally have one: "exp (sum_list (map (\<lambda>s. ln (R s)) (index EM)) / ?n) = 1"
    by simp
  have "\<forall>s \<in> set (index EM).
               effective_lib_size EM meta_df tau_s s = Fin (E s) \<and> 0 < E s \<and>
               relative_normalization_factor EM meta_df tau_s s = Fin (R s) \<and>
               R s = E s / exp (sum_list (map (\<lambda>s'. ln (E s')) (index EM)) / ?n)"
    using E rnf by (simp add: R_def m_def)
  with one have explicit: "\<exists>E R.
            (\<forall>s \<in> set (index EM).
               effective_lib_size EM meta_df tau_s s = Fin (E s) \<and> 0 < E s \<and>
               relative_normalization_factor EM meta_df tau_s s = Fin (R s) \<and>
               R s = E s / exp (sum_list (map (\<lambda>s'. ln (E s')) (index EM)) / ?n)) \<and>
            exp (sum_list (map (\<lambda>s. ln (R s)) (index EM)) / ?n) = 1"
    by blast
  have code: "geo_mean_of (index EM) (relative_normalization_factor EM meta_df tau_s) = Fin 1"
    using geo_mean_of_pos [OF assms(1) rnf] one by simp
  from explicit code arithmetic_mean_not_one show ?thesis by blast
qed

theorem relative_factors_geometric_mean_witness:
  "index EM_scenario \<noteq> [] \<and>
   tau EM_scenario meta_scenario 0 = Inr tau_scenario \<and>
   map (effective_lib_size EM_scenario meta_scenario tau_scenario) (index EM_scenario) =
     [Fin 30, Fin 40, Fin 28, Fin 70] \<and>
   (\<exists>E R.
      (\<forall>s \<in> set (index EM_scenario).
         effective_lib_size EM_scenario meta_scenario tau_scenario s = Fin (E s) \<and> 0 < E s \<and>
         relative_normalization_factor EM_scenario meta_scenario tau_scenario s = Fin (R s) \<and>
         R s = E s / exp (sum_list (map (\<lambda>s'. ln (E s')) (index EM_scenario)) /
                          real (length (index EM_scenario)))) \<and>
      exp (sum_list (map (\<lambda>s. ln (R s)) (index EM_scenario)) /
           real (length (index EM_scenario))) = 1) \<and>
   geo_mean_of (index EM_scenario)
     (relative_normalization_factor EM_scenario meta_scenario tau_scenario) = Fin 1"
proof -
  have "\<forall>s \<in> set (index EM_scenario).
      \<exists>e. effective_lib_size EM_scenario meta_scenario tau_scenario s = Fin e \<and> 0 < e"
    using effective_lib_size_scenario by (simp add: EM_scenario_def)
  from relative_factors_geometric_mean [OF index_scenario_nonempty this]
    index_scenario_nonempty tau_scenario_eval effective_lib_size_scenario
  show ?thesis by blast
qed

subsection \<open>What the run does where the spec expects an error\<close>

text \<open>
  The numerical cells check nothing and raise nothing of their own: the only exception is
  the \<^verbatim>\<open>KeyError\<close> of \<^verbatim>\<open>Y_clonal.loc\<close>. When the reference clone and every clone
  of the metadata is a row of \<open>Y_clonal\<close>, the loop completes, whatever the counts.
\<close>

lemma tau_completes:
  assumes "ref \<in> set (index (Y_clonal (Y EM) meta_df))"
    and "set (clones meta_df) \<subseteq> set (index (Y_clonal (Y EM) meta_df))"
  shows "tau EM meta_df ref =
           Inr (\<lambda>c. if c \<in> set (clones meta_df)
                    then Some (np_median (ratios (columns EM) (cell (Y_clonal (Y EM) meta_df) c)
                                            (cell (Y_clonal (Y EM) meta_df) ref)))
                    else None)"
  using assms by (simp add: tau_Inr)

lemma np_median_Nil: "np_median [] = NaN"
  by (simp add: np_median_def np_mean_def)

lemma mrn_counts_NaN:
  assumes "map_of meta_df s = Some g" and "tau_s g = Some NaN"
  shows "cell (mrn_counts EM meta_df tau_s) s gene = NaN"
  using assms
  by (simp add: mrn_counts_def relative_normalization_factor_def effective_lib_size_def
      scalar_lib_size_def clonalities_def)

text \<open>
  A count matrix with no sample: \<^verbatim>\<open>assign\<close> gives the frame the samples of the metadata,
  so every clone of the metadata is a row of \<open>Y_clonal\<close>, all NaN. The loop completes with
  every tau NaN, and the run returns a frame with no row.
\<close>

lemma np_median_all_NaN:
  assumes "\<forall>x \<in> set xs. x = NaN"
  shows "np_median xs = NaN"
proof (cases "xs = []")
  case True
  then show ?thesis by (simp add: np_median_Nil)
next
  case False
  then obtain x where "x \<in> set xs" by (cases xs) auto
  with assms have "NaN \<in> set xs" by auto
  then show ?thesis by (simp add: np_median_def)
qed

lemma map_filter_keys:
  assumes "\<forall>p \<in> set xs. f (fst p) = Some (snd p)"
  shows "List.map_filter f (map fst xs) = map snd xs"
  using assms by (induction xs) (auto simp: List.map_filter_def)

lemma index_Y_clonal_no_sample:
  assumes "index Yf = []" and "distinct (map fst meta_df)"
  shows "set (index (Y_clonal Yf meta_df)) = snd ` set meta_df"
proof -
  have "\<forall>p \<in> set meta_df. map_of meta_df (fst p) = Some (snd p)"
    using map_of_is_SomeI [OF assms(2)] by auto
  then have "List.map_filter (map_of meta_df) (map fst meta_df) = map snd meta_df"
    by (rule map_filter_keys)
  then show ?thesis
    using assms(1) by (simp add: Y_clonal_def assign_Clone_def)
qed

lemma mrn_no_sample:
  assumes "index EM = []" and "distinct (map fst meta_df)" and "ref \<in> snd ` set meta_df"
  shows "\<exists>tau_s. tau EM meta_df ref = Inr tau_s \<and>
           (\<forall>c \<in> set (clones meta_df). tau_s c = Some NaN) \<and>
           mrn EM meta_df ref = Inr (mrn_counts EM meta_df tau_s) \<and>
           index (mrn_counts EM meta_df tau_s) = []"
proof -
  let ?Yc = "Y_clonal (Y EM) meta_df"
  let ?tau = "\<lambda>c. if c \<in> set (clones meta_df)
                    then Some (np_median (ratios (columns EM) (cell ?Yc c) (cell ?Yc ref)))
                    else None"
  have rows: "set (index ?Yc) = snd ` set meta_df"
    using assms(1,2) by (simp add: index_Y_clonal_no_sample)
  then have "ref \<in> set (index ?Yc)" "set (clones meta_df) \<subseteq> set (index ?Yc)"
    using assms(3) by (simp_all add: clones_def)
  then have t: "tau EM meta_df ref = Inr ?tau"
    by (rule tau_completes)
  have "np_median (ratios (columns EM) (cell ?Yc c) (cell ?Yc ref)) = NaN" for c
    using assms(1) by (intro np_median_all_NaN) (simp add: ratios_def)
  then have "\<forall>c \<in> set (clones meta_df). ?tau c = Some NaN"
    by simp
  moreover have "mrn EM meta_df ref = Inr (mrn_counts EM meta_df ?tau)"
    by (simp add: mrn_def t)
  moreover have "index (mrn_counts EM meta_df ?tau) = []"
    using assms(1) by simp
  ultimately show ?thesis using t by blast
qed

text \<open>
  C6, as the code has it: for a clone whose ok-gene set is empty, step III raises nothing.
  The clone's tau is NaN (\<^verbatim>\<open>np.median\<close> of no ratio), not 1.0; the run goes on to its
  output, in which every cell of that clone's samples is NaN.
\<close>

theorem empty_ok_genes_gives_NaN:
  assumes "ref \<in> set (index (Y_clonal (Y EM) meta_df))"
    and "set (clones meta_df) \<subseteq> set (index (Y_clonal (Y EM) meta_df))"
    and "g \<in> set (clones meta_df)"
    and "ok_genes (columns EM) (cell (Y_clonal (Y EM) meta_df) g)
           (cell (Y_clonal (Y EM) meta_df) ref) = []"
  shows "\<exists>tau_s. tau EM meta_df ref = Inr tau_s \<and> tau_s g = Some NaN \<and>
           mrn EM meta_df ref = Inr (mrn_counts EM meta_df tau_s) \<and>
           (\<forall>s gene. map_of meta_df s = Some g \<longrightarrow>
              cell (mrn_counts EM meta_df tau_s) s gene = NaN)"
proof -
  let ?Yc = "Y_clonal (Y EM) meta_df"
  let ?tau = "\<lambda>c. if c \<in> set (clones meta_df)
                    then Some (np_median (ratios (columns EM) (cell ?Yc c) (cell ?Yc ref)))
                    else None"
  have t: "tau EM meta_df ref = Inr ?tau"
    using assms(1,2) by (rule tau_completes)
  have "ratios (columns EM) (cell ?Yc g) (cell ?Yc ref) = []"
    using assms(4) by (simp add: ratios_def)
  with assms(3) have g: "?tau g = Some NaN"
    by (simp add: np_median_Nil)
  have "mrn EM meta_df ref = Inr (mrn_counts EM meta_df ?tau)"
    by (simp add: mrn_def t)
  moreover have "\<forall>s gene. map_of meta_df s = Some g \<longrightarrow>
              cell (mrn_counts EM meta_df ?tau) s gene = NaN"
    using g by (blast intro: mrn_counts_NaN)
  ultimately show ?thesis using t g by blast
qed

theorem empty_ok_genes_counterexample:
  "ok_genes (columns EM_disjoint) (cell (Y_clonal (Y EM_disjoint) meta_pair) 1)
     (cell (Y_clonal (Y EM_disjoint) meta_pair) 0) = [] \<and>
   tau EM_disjoint meta_pair 0 = Inr tau_disjoint \<and>
   tau_disjoint 1 = Some NaN \<and>
   mrn EM_disjoint meta_pair 0 = Inr (mrn_counts EM_disjoint meta_pair tau_disjoint)"
  using ok_genes_disjoint tau_disjoint_eval by (simp add: mrn_def tau_disjoint_def)

theorem empty_ok_genes_gives_NaN_witness:
  "0 \<in> set (index (Y_clonal (Y EM_disjoint) meta_pair)) \<and>
   set (clones meta_pair) \<subseteq> set (index (Y_clonal (Y EM_disjoint) meta_pair)) \<and>
   1 \<in> set (clones meta_pair) \<and>
   ok_genes (columns EM_disjoint) (cell (Y_clonal (Y EM_disjoint) meta_pair) 1)
     (cell (Y_clonal (Y EM_disjoint) meta_pair) 0) = [] \<and>
   (\<exists>tau_s. tau EM_disjoint meta_pair 0 = Inr tau_s \<and> tau_s 1 = Some NaN \<and>
      mrn EM_disjoint meta_pair 0 = Inr (mrn_counts EM_disjoint meta_pair tau_s) \<and>
      (\<forall>s gene. map_of meta_pair s = Some 1 \<longrightarrow>
         cell (mrn_counts EM_disjoint meta_pair tau_s) s gene = NaN))"
proof -
  have h1: "0 \<in> set (index (Y_clonal (Y EM_disjoint) meta_pair))"
    and h2: "set (clones meta_pair) \<subseteq> set (index (Y_clonal (Y EM_disjoint) meta_pair))"
    and h3: "1 \<in> set (clones meta_pair)"
    by (simp_all add: index_Y_clonal_pair index_pair clones_pair)
  have h4: "ok_genes (columns EM_disjoint) (cell (Y_clonal (Y EM_disjoint) meta_pair) 1)
     (cell (Y_clonal (Y EM_disjoint) meta_pair) 0) = []"
    using ok_genes_disjoint by simp
  from empty_ok_genes_gives_NaN [OF h1 h2 h3 h4] h1 h2 h3 h4 show ?thesis by blast
qed

text \<open>
  C7, as the code has it: for a sample whose library size is zero, step I raises nothing.
  Each cell of the sample's row of \<open>Y\<close> is the float64 quotient by zero (NaN for a zero
  count, an infinity with the count's sign otherwise), and the run goes on to an output.
\<close>

theorem zero_library_size_gives_NaN:
  assumes "sum_list (map (cell EM s) (columns EM)) = 0"
    and "ref \<in> set (index (Y_clonal (Y EM) meta_df))"
    and "set (clones meta_df) \<subseteq> set (index (Y_clonal (Y EM) meta_df))"
  shows "library_size EM s = Fin 0 \<and>
         cell (Y EM) s gene =
           (if cell EM s gene = 0 then NaN else if 0 < cell EM s gene then PInf else NInf) \<and>
         (\<exists>out. mrn EM meta_df ref = Inr out)"
  using assms(1) tau_completes [OF assms(2,3)] by (simp add: library_size_def mrn_def)

theorem zero_library_size_counterexample:
  "sum_list (map (cell EM_empty_library 1) (columns EM_empty_library)) = 0 \<and>
   map (cell (Y EM_empty_library) 1) (columns EM_empty_library) = [NaN, NaN] \<and>
   mrn EM_empty_library meta_pair 0 =
     Inr (mrn_counts EM_empty_library meta_pair tau_empty_library)"
  using tau_empty_library_eval
  by (simp add: mrn_def) (simp add: EM_empty_library_def library_size_def)

theorem zero_library_size_gives_NaN_witness:
  "sum_list (map (cell EM_empty_library 1) (columns EM_empty_library)) = 0 \<and>
   0 \<in> set (index (Y_clonal (Y EM_empty_library) meta_pair)) \<and>
   set (clones meta_pair) \<subseteq> set (index (Y_clonal (Y EM_empty_library) meta_pair)) \<and>
   library_size EM_empty_library 1 = Fin 0 \<and>
   cell (Y EM_empty_library) 1 0 = NaN \<and>
   (\<exists>out. mrn EM_empty_library meta_pair 0 = Inr out)"
proof -
  have h1: "sum_list (map (cell EM_empty_library 1) (columns EM_empty_library)) = 0"
    by (simp add: EM_empty_library_def)
  have h2: "0 \<in> set (index (Y_clonal (Y EM_empty_library) meta_pair))"
    and h3: "set (clones meta_pair) \<subseteq> set (index (Y_clonal (Y EM_empty_library) meta_pair))"
    by (simp_all add: index_Y_clonal_pair index_pair clones_pair)
  have c: "cell EM_empty_library 1 0 = 0"
    by (simp add: EM_empty_library_def)
  note r = zero_library_size_gives_NaN [OF h1 h2 h3, of 0]
  from r c have "cell (Y EM_empty_library) 1 0 = NaN" by (simp only: refl if_True)
  with r h1 h2 h3 show ?thesis by blast
qed

subsection \<open>Scaling one sample: library size and geometric mean\<close>

lemma library_size_scale_row:
  "library_size (scale_row EM s k) s = fmul (Fin k) (library_size EM s)"
  "s' \<noteq> s \<Longrightarrow> library_size (scale_row EM s k) s' = library_size EM s'"
  by (simp_all add: library_size_def sum_list_const_mult)

lemma fmul_Fin_Fin:
  assumes "fmul x (Fin b) = Fin e"
  shows "\<exists>a. x = Fin a \<and> e = a * b"
  using assms by (cases x) (auto split: if_splits)

lemma sum_list_update_once:
  assumes "distinct xs" and "s \<in> set xs"
  shows "sum_list (map (\<lambda>x. if x = s then v else f x) xs) = sum_list (map f xs) - f s + (v::real)"
  using assms
proof (induction xs)
  case Nil
  then show ?case by simp
next
  case (Cons x xs)
  show ?case
  proof (cases "x = s")
    case True
    with Cons.prems have "s \<notin> set xs" by simp
    then have "sum_list (map (\<lambda>x. if x = s then v else f x) xs) = sum_list (map f xs)"
      by (intro arg_cong [where f = sum_list] map_cong) auto
    with True show ?thesis by simp
  next
    case False
    with Cons show ?thesis by simp
  qed
qed

lemma geo_mean_scale_row:
  assumes k: "0 < k" and s: "s \<in> set (index EM)" and d: "distinct (index EM)"
    and pos: "\<forall>s' \<in> set (index EM). \<exists>e. effective_lib_size EM meta_df tau_s s' = Fin e \<and> 0 < e"
  shows "geo_mean (scale_row EM s k) meta_df tau_s =
           fmul (Fin (k powr (1 / real (length (index EM))))) (geo_mean EM meta_df tau_s)"
proof -
  let ?n = "real (length (index EM))"
  from s have ne: "index EM \<noteq> []" by auto
  from pos obtain E where
    E: "\<forall>s' \<in> set (index EM). effective_lib_size EM meta_df tau_s s' = Fin (E s') \<and> 0 < E s'"
    by metis
  have G: "geo_mean EM meta_df tau_s = Fin (exp (sum_list (map (\<lambda>s. ln (E s)) (index EM)) / ?n))"
    unfolding geo_mean_def using ne E by (rule geo_mean_of_pos)
  let ?E' = "\<lambda>s'. if s' = s then k * E s else E s'"
  have E': "\<forall>s' \<in> set (index (scale_row EM s k)).
      effective_lib_size (scale_row EM s k) meta_df tau_s s' = Fin (?E' s') \<and> 0 < ?E' s'"
  proof
    fix s' assume "s' \<in> set (index (scale_row EM s k))"
    then have s': "s' \<in> set (index EM)" by simp
    show "effective_lib_size (scale_row EM s k) meta_df tau_s s' = Fin (?E' s') \<and> 0 < ?E' s'"
    proof (cases "s' = s")
      case True
      from E s have e: "effective_lib_size EM meta_df tau_s s = Fin (E s)" and p: "0 < E s"
        by blast+
      from e obtain a where a: "scalar_lib_size meta_df tau_s s = Fin a"
        and Ea: "E s = a * sum_list (map (cell EM s) (columns EM))"
        unfolding effective_lib_size_def library_size_def by (blast dest: fmul_Fin_Fin)
      from a Ea p k True show ?thesis
        by (simp add: effective_lib_size_def library_size_def sum_list_const_mult)
    next
      case False
      with E s' show ?thesis
        by (simp add: effective_lib_size_def library_size_scale_row)
    qed
  qed
  have ne': "index (scale_row EM s k) \<noteq> []" using ne by simp
  have "geo_mean (scale_row EM s k) meta_df tau_s =
      Fin (exp (sum_list (map (\<lambda>s. ln (?E' s)) (index (scale_row EM s k))) /
        real (length (index (scale_row EM s k)))))"
    unfolding geo_mean_def using ne' E' by (rule geo_mean_of_pos)
  also have "(\<lambda>s'. ln (?E' s')) = (\<lambda>s'. if s' = s then ln (k * E s) else ln (E s'))"
    by (auto simp: fun_eq_iff)
  also have "sum_list (map (\<lambda>s'. if s' = s then ln (k * E s) else ln (E s'))
        (index (scale_row EM s k))) =
      sum_list (map (\<lambda>s'. ln (E s')) (index EM)) - ln (E s) + ln (k * E s)"
    using sum_list_update_once [OF d s, of "ln (k * E s)" "\<lambda>s'. ln (E s')"] by simp
  also have "\<dots> = sum_list (map (\<lambda>s'. ln (E s')) (index EM)) + ln k"
    using k E s by (simp add: ln_mult_pos)
  finally have "geo_mean (scale_row EM s k) meta_df tau_s =
      Fin (exp ((sum_list (map (\<lambda>s'. ln (E s')) (index EM)) + ln k) / ?n))"
    by simp
  also have "exp ((sum_list (map (\<lambda>s'. ln (E s')) (index EM)) + ln k) / ?n) =
      k powr (1 / ?n) * exp (sum_list (map (\<lambda>s. ln (E s)) (index EM)) / ?n)"
    using k by (simp add: powr_def add_divide_distrib exp_add)
  finally show ?thesis by (simp add: G)
qed

text \<open>
  C8, as the code has it: multiplying every raw count of a sample \<open>s\<close> outside the
  reference clone by \<open>k > 0\<close> multiplies the library size of \<open>s\<close> by \<open>k\<close> and leaves
  the other library sizes, every clone's tau and the reference profile unchanged. The
  geometric mean of the effective library sizes is not unchanged: when \<open>s\<close> is one of
  \<open>n\<close> distinct samples and all effective library sizes are positive, it is multiplied
  by \<open>k\<close> to the power \<open>1 / n\<close>.
\<close>

theorem scaling_library_size:
  assumes "0 < k" and "map_of meta_df s \<noteq> Some ref"
  shows "library_size (scale_row EM s k) s = fmul (Fin k) (library_size EM s) \<and>
         (\<forall>s'. s' \<noteq> s \<longrightarrow> library_size (scale_row EM s k) s' = library_size EM s') \<and>
         tau (scale_row EM s k) meta_df ref = tau EM meta_df ref \<and>
         Y_ref (Y_clonal (Y (scale_row EM s k)) meta_df) ref =
           Y_ref (Y_clonal (Y EM) meta_df) ref \<and>
         (s \<in> set (index EM) \<and> distinct (index EM) \<and>
          (\<forall>s' \<in> set (index EM).
             \<exists>e. effective_lib_size EM meta_df tau_s s' = Fin e \<and> 0 < e) \<longrightarrow>
          geo_mean (scale_row EM s k) meta_df tau_s =
            fmul (Fin (k powr (1 / real (length (index EM))))) (geo_mean EM meta_df tau_s))"
proof -
  have eq: "Y (scale_row EM s k) = Y EM"
    using assms(1) by (rule Y_scale_row)
  have "tau (scale_row EM s k) meta_df ref = tau EM meta_df ref"
    unfolding tau_def eq by (simp cong: sum.case_cong)
  then show ?thesis
    using geo_mean_scale_row [OF assms(1), of s EM meta_df tau_s]
    by (simp add: library_size_scale_row eq)
qed

theorem scaling_library_size_counterexample:
  "(0::real) < 4 \<and> map_of meta_pair 1 \<noteq> Some 0 \<and>
   tau EM_unit meta_pair 0 = Inr tau_unit \<and>
   tau (scale_row EM_unit 1 4) meta_pair 0 = Inr tau_unit \<and>
   geo_mean EM_unit meta_pair tau_unit = Fin 2 \<and>
   geo_mean (scale_row EM_unit 1 4) meta_pair tau_unit = Fin 4 \<and>
   geo_mean (scale_row EM_unit 1 4) meta_pair tau_unit \<noteq> geo_mean EM_unit meta_pair tau_unit"
  using tau_unit_eval tau_unit_scaled_eval geo_mean_unit geo_mean_unit_scaled
  by (simp add: meta_pair_def)

theorem scaling_library_size_witness:
  "(0::real) < 4 \<and> map_of meta_pair 1 \<noteq> Some 0 \<and>
   library_size (scale_row EM_unit 1 4) 1 = fmul (Fin 4) (library_size EM_unit 1) \<and>
   library_size (scale_row EM_unit 1 4) 0 = library_size EM_unit 0 \<and>
   tau (scale_row EM_unit 1 4) meta_pair 0 = tau EM_unit meta_pair 0 \<and>
   Y_ref (Y_clonal (Y (scale_row EM_unit 1 4)) meta_pair) 0 =
     Y_ref (Y_clonal (Y EM_unit) meta_pair) 0 \<and>
   1 \<in> set (index EM_unit) \<and> distinct (index EM_unit) \<and>
   map (effective_lib_size EM_unit meta_pair tau_unit) (index EM_unit) = [Fin 2, Fin 2] \<and>
   geo_mean (scale_row EM_unit 1 4) meta_pair tau_unit =
     fmul (Fin (4 powr (1 / real (length (index EM_unit))))) (geo_mean EM_unit meta_pair tau_unit)"
proof -
  have h1: "(0::real) < 4" by simp
  have h2: "map_of meta_pair 1 \<noteq> Some (0::nat)" by (simp add: meta_pair_def)
  have h3: "1 \<in> set (index EM_unit)" "distinct (index EM_unit)"
    by (simp_all add: index_pair)
  have e: "map (effective_lib_size EM_unit meta_pair tau_unit) (index EM_unit) = [Fin 2, Fin 2]"
    using effective_lib_size_unit(1) by (simp add: index_pair)
  then have h4: "\<forall>s' \<in> set (index EM_unit).
      \<exists>e. effective_lib_size EM_unit meta_pair tau_unit s' = Fin e \<and> 0 < e"
    by (simp add: index_pair)
  note r = scaling_library_size [OF h1 h2, of EM_unit tau_unit]
  from r have "library_size (scale_row EM_unit 1 4) 0 = library_size EM_unit 0"
    by simp
  with r h1 h2 h3 e h4 show ?thesis by blast
qed

end
